theory Spec2Isabelle
  imports Main "HOL-Library.AList" "HOL-Library.Multiset"
begin

section \<open>Python strings\<close>

text \<open>
  A Python \<open>str\<close> is modelled as a list of characters, each a code point below 256.
  The functions of this section are the string methods that \<open>arff.py\<close> calls, with the
  behaviour of Python 3.
\<close>

definition is_space :: "char \<Rightarrow> bool" where
  \<comment> \<open>\<open>str.isspace\<close> on one character; also the class \<open>\s\<close> of \<open>re\<close>\<close>
  "is_space c = (c \<in> set [CHR 0x09, CHR 0x0A, CHR 0x0B, CHR 0x0C, CHR 0x0D, CHR 0x1C,
                           CHR 0x1D, CHR 0x1E, CHR 0x1F, CHR 0x20, CHR 0x85, CHR 0xA0])"

definition is_linebreak :: "char \<Rightarrow> bool" where
  \<comment> \<open>the line boundaries of \<open>str.splitlines\<close>\<close>
  "is_linebreak c = (c \<in> set [CHR 0x0A, CHR 0x0B, CHR 0x0C, CHR 0x0D, CHR 0x1C, CHR 0x1D,
                               CHR 0x1E, CHR 0x85])"

definition is_digit :: "char \<Rightarrow> bool" where
  "is_digit c = (c \<in> set ''0123456789'')"

definition is_quote :: "char \<Rightarrow> bool" where
  "is_quote c = (c = CHR 0x27 \<or> c = CHR 0x22)"

definition strip :: "string \<Rightarrow> string" where
  "strip s = rev (dropWhile is_space (rev (dropWhile is_space s)))"

definition startswith :: "string \<Rightarrow> string \<Rightarrow> bool" where
  "startswith s p = (take (length p) s = p)"

definition endswith :: "string \<Rightarrow> string \<Rightarrow> bool" where
  "endswith s p = (length p \<le> length s \<and> drop (length s - length p) s = p)"

fun split_on :: "char \<Rightarrow> string \<Rightarrow> string list" where
  \<comment> \<open>\<open>s.split(c)\<close> for a separator of one character\<close>
  "split_on c [] = [[]]"
| "split_on c (x # xs) =
     (if x = c then [] # split_on c xs
      else (case split_on c xs of [] \<Rightarrow> [[x]] | w # ws \<Rightarrow> (x # w) # ws))"

fun split_ws :: "string \<Rightarrow> string list" where
  \<comment> \<open>\<open>s.split()\<close>: the maximal runs of characters that are not whitespace\<close>
  "split_ws [] = []"
| "split_ws (c # cs) =
     (if is_space c then split_ws cs
      else (case cs of
              [] \<Rightarrow> [[c]]
            | d # _ \<Rightarrow> if is_space d then [c] # split_ws cs
                       else (case split_ws cs of [] \<Rightarrow> [[c]] | w # ws \<Rightarrow> (c # w) # ws)))"

fun splitlines :: "string \<Rightarrow> string list" where
  "splitlines [] = []"
| "splitlines (c # cs) =
     (if c = CHR 0x0D \<and> cs \<noteq> [] \<and> hd cs = CHR 0x0A then [] # splitlines (tl cs)
      else if is_linebreak c then [] # splitlines cs
      else (case splitlines cs of [] \<Rightarrow> [[c]] | l # ls \<Rightarrow> (c # l) # ls))"

fun join :: "string \<Rightarrow> string list \<Rightarrow> string" where
  "join sep [] = []"
| "join sep [x] = x"
| "join sep (x # y # ys) = x @ sep @ join sep (y # ys)"

function replace :: "string \<Rightarrow> string \<Rightarrow> string \<Rightarrow> string" where
  \<comment> \<open>\<open>s.replace(old, new)\<close>: the occurrences of \<open>old\<close> from the left, not overlapping\<close>
  "replace old new [] = (if old = [] then new else [])"
| "replace old new (c # cs) =
     (if old = [] then new @ c # replace old new cs
      else if take (length old) (c # cs) = old
           then new @ replace old new (drop (length old) (c # cs))
      else c # replace old new cs)"
  by pat_completeness auto
termination
  by (relation "measure (\<lambda>(old, new, s). length s)") (auto simp: neq_Nil_conv)

definition lower_char :: "char \<Rightarrow> char" where
  "lower_char c =
     (let n = (of_char c :: nat)
      in if (65 \<le> n \<and> n \<le> 90) \<or> (192 \<le> n \<and> n \<le> 222 \<and> n \<noteq> 215)
         then char_of (n + 32) else c)"

definition lower :: "string \<Rightarrow> string" where
  "lower s = map lower_char s"

fun dec_digits :: "nat \<Rightarrow> string" where
  "dec_digits n =
     (if n < 10 then [''0123456789'' ! n]
      else dec_digits (n div 10) @ [''0123456789'' ! (n mod 10)])"

definition str_of_int :: "int \<Rightarrow> string" where
  \<comment> \<open>\<open>str(n)\<close> and \<open>'%d' % n\<close> for an \<open>int\<close>\<close>
  "str_of_int i = (if i < 0 then CHR ''-'' # dec_digits (nat (- i)) else dec_digits (nat i))"

definition digit_val :: "char \<Rightarrow> nat" where
  "digit_val c = of_char c - 48"

fun nat_of_digits :: "nat \<Rightarrow> string \<Rightarrow> nat option" where
  \<comment> \<open>decimal digits, with single underscores allowed between two digits\<close>
  "nat_of_digits acc [] = Some acc"
| "nat_of_digits acc (c # cs) =
     (if is_digit c then nat_of_digits (10 * acc + digit_val c) cs
      else if c = CHR ''_'' \<and> cs \<noteq> [] \<and> is_digit (hd cs) then nat_of_digits acc cs
      else None)"

definition int_digits :: "string \<Rightarrow> nat option" where
  "int_digits s = (case s of [] \<Rightarrow> None
                   | c # _ \<Rightarrow> if is_digit c then nat_of_digits 0 s else None)"

definition int_of_str :: "string \<Rightarrow> int option" where
  \<comment> \<open>\<open>int(s)\<close> for a \<open>str\<close>; \<open>None\<close> stands for \<open>ValueError\<close>\<close>
  "int_of_str s =
     (case strip s of
        [] \<Rightarrow> None
      | c # cs \<Rightarrow>
          if c = CHR ''-'' then map_option (\<lambda>n. - int n) (int_digits cs)
          else if c = CHR ''+'' then map_option int (int_digits cs)
          else map_option int (int_digits (c # cs)))"

section \<open>Scalars, errors and the host library\<close>

text \<open>
  The raw scalars that reach the code: \<open>None\<close>, text, integers, and three kinds of objects
  of the host library: binary floats, \<open>Decimal\<close>s and calendar values
  (\<open>date\<close>/\<open>datetime\<close>). The host's objects are values of the type parameter \<open>'h\<close>;
  what the host does with them (conversion, formatting, comparison) is a parameter of the
  model, the record \<open>host\<close>.
\<close>

datatype 'h raw = RNone | RStr string | RInt int | RFloat 'h | RDecimal 'h | RDate 'h

datatype error =
    AssertionError | AttributeError | IndexError | KeyError | OverflowError
  | TypeError | ValueError | InvalidOperation | NotImplementedError string | Exception string

text \<open>
  The extra data of an attribute, as \<open>attribute_data\<close> holds it: \<open>None\<close>, a list of values
  (a parsed nominal declaration), a set of values (built by the constructor or by
  \<open>append\<close>; kept here in some order without repetition), or text (a date pattern).
\<close>

datatype 'h adata = ANone | AList "'h raw list" | ASet "'h raw list" | AStr string

record 'h host =
  h_float :: "'h raw \<Rightarrow> error + 'h"      \<comment> \<open>\<open>float(v)\<close> for text, an int, a float or a Decimal\<close>
  h_int :: "'h raw \<Rightarrow> error + int"       \<comment> \<open>\<open>int(v)\<close> for a float or a Decimal\<close>
  h_str :: "'h raw \<Rightarrow> string"            \<comment> \<open>\<open>str(v)\<close> for a float, a Decimal or a calendar value\<close>
  h_eq :: "'h raw \<Rightarrow> 'h raw \<Rightarrow> bool"      \<comment> \<open>\<open>a == b\<close> when one side is a host object and the
                                            other an int or a host object\<close>
  h_decimal :: "string \<Rightarrow> error + 'h"    \<comment> \<open>\<open>Decimal(s)\<close>\<close>
  h_dateutil :: "string \<Rightarrow> error + 'h"   \<comment> \<open>\<open>dateutil.parser.parse(s)\<close>\<close>
  h_strftime :: "'h \<Rightarrow> string \<Rightarrow> error + string"  \<comment> \<open>\<open>d.strftime(pattern)\<close>\<close>
  h_sorted :: "'h raw list \<Rightarrow> error + 'h raw list"  \<comment> \<open>\<open>sorted(vs)\<close>\<close>
  h_repr :: "'h adata \<Rightarrow> string"         \<comment> \<open>\<open>str(x)\<close> for a list or a set of scalars\<close>

definition MISSING :: string where
  "MISSING = ''?''"

definition TYPE_INTEGER :: string where "TYPE_INTEGER = ''integer''"
definition TYPE_NUMERIC :: string where "TYPE_NUMERIC = ''numeric''"
definition TYPE_REAL :: string where "TYPE_REAL = ''real''"
definition TYPE_STRING :: string where "TYPE_STRING = ''string''"
definition TYPE_NOMINAL :: string where "TYPE_NOMINAL = ''nominal''"
definition TYPE_DATE :: string where "TYPE_DATE = ''date''"

definition TYPES :: "string list" where
  "TYPES = [TYPE_INTEGER, TYPE_NUMERIC, TYPE_STRING, TYPE_NOMINAL, TYPE_DATE]"

definition NUMERIC_TYPES :: "string list" where
  "NUMERIC_TYPES = [TYPE_INTEGER, TYPE_NUMERIC, TYPE_REAL]"

definition DEFAULT_DATE_FORMAT :: string where
  "DEFAULT_DATE_FORMAT = ''yyyy-MM-dd HH:mm:ss''"

lemmas type_defs =
  TYPE_INTEGER_def TYPE_NUMERIC_def TYPE_REAL_def TYPE_STRING_def TYPE_NOMINAL_def
  TYPE_DATE_def

definition py_eq :: "'h host \<Rightarrow> 'h raw \<Rightarrow> 'h raw \<Rightarrow> bool" where
  \<comment> \<open>\<open>a == b\<close> on raw scalars\<close>
  "py_eq h a b =
     (case (a, b) of
        (RNone, RNone) \<Rightarrow> True
      | (RStr s, RStr t) \<Rightarrow> s = t
      | (RInt i, RInt j) \<Rightarrow> i = j
      | (RNone, _) \<Rightarrow> False
      | (_, RNone) \<Rightarrow> False
      | (RStr _, _) \<Rightarrow> False
      | (_, RStr _) \<Rightarrow> False
      | _ \<Rightarrow> h_eq h a b)"

definition py_str :: "'h host \<Rightarrow> 'h raw \<Rightarrow> string" where
  \<comment> \<open>\<open>str(v)\<close>\<close>
  "py_str h v =
     (case v of RNone \<Rightarrow> ''None'' | RStr s \<Rightarrow> s | RInt i \<Rightarrow> str_of_int i | _ \<Rightarrow> h_str h v)"

definition py_int :: "'h host \<Rightarrow> 'h raw \<Rightarrow> error + int" where
  \<comment> \<open>\<open>int(v)\<close>\<close>
  "py_int h v =
     (case v of
        RNone \<Rightarrow> Inl TypeError
      | RStr s \<Rightarrow> (case int_of_str s of None \<Rightarrow> Inl ValueError | Some i \<Rightarrow> Inr i)
      | RInt i \<Rightarrow> Inr i
      | RDate _ \<Rightarrow> Inl TypeError
      | _ \<Rightarrow> h_int h v)"

definition py_float :: "'h host \<Rightarrow> 'h raw \<Rightarrow> error + 'h" where
  \<comment> \<open>\<open>float(v)\<close>\<close>
  "py_float h v =
     (case v of RNone \<Rightarrow> Inl TypeError | RDate _ \<Rightarrow> Inl TypeError | _ \<Rightarrow> h_float h v)"


section \<open>The typed Value model\<close>

text \<open>
  The five subclasses of \<open>Value\<close>. An object has the slots \<open>value\<close> (here \<open>payload\<close>) and
  \<open>cls\<close>; its class is its \<open>kind\<close>. Payloads are raw scalars.
\<close>

datatype kind = KInteger | KNumeric | KString | KNominal | KDate

datatype 'h val = Value (kind: kind) (payload: "'h raw") (cls: bool)

text \<open>What a row holds at one attribute: a raw scalar or a Value object.\<close>

datatype 'h entry = Raw "'h raw" | Val "'h val"

definition c_type :: "kind \<Rightarrow> string" where
  "c_type k = (case k of KInteger \<Rightarrow> TYPE_INTEGER | KNumeric \<Rightarrow> TYPE_NUMERIC
               | KString \<Rightarrow> TYPE_STRING | KNominal \<Rightarrow> TYPE_NOMINAL | KDate \<Rightarrow> TYPE_DATE)"

definition Value_eq :: "'h host \<Rightarrow> 'h val \<Rightarrow> 'h entry \<Rightarrow> bool option" where
  \<comment> \<open>\<open>Value.__eq__(self, other)\<close>; \<open>None\<close> stands for \<open>NotImplemented\<close>\<close>
  "Value_eq h self other =
     (case other of
        Val v \<Rightarrow> Some (py_eq h (payload self) (payload v))
      | Raw _ \<Rightarrow> None)"

definition Integer :: "'h host \<Rightarrow> 'h raw \<Rightarrow> bool \<Rightarrow> error + 'h val" where
  "Integer h v c =
     (if v \<noteq> RStr MISSING
      then (case py_int h v of Inl e \<Rightarrow> Inl e | Inr i \<Rightarrow> Inr (Value KInteger (RInt i) c))
      else Inr (Value KInteger v c))"

definition Numeric :: "'h host \<Rightarrow> 'h raw \<Rightarrow> bool \<Rightarrow> error + 'h val" where
  "Numeric h v c =
     (if v \<noteq> RStr MISSING
      then (case py_float h v of Inl e \<Rightarrow> Inl e | Inr f \<Rightarrow> Inr (Value KNumeric (RFloat f) c))
      else Inr (Value KNumeric v c))"

definition String :: "'h host \<Rightarrow> 'h raw \<Rightarrow> bool \<Rightarrow> error + 'h val" where
  "String h v c = Inr (Value KString (RStr (py_str h v)) c)"

definition Nominal :: "'h raw \<Rightarrow> bool \<Rightarrow> error + 'h val" where
  "Nominal v c = Inr (Value KNominal v c)"

definition Date :: "'h raw \<Rightarrow> bool \<Rightarrow> error + 'h val" where
  "Date v c = Inr (Value KDate v c)"

definition TYPE_TO_CLASS :: "string \<rightharpoonup> kind" where
  "TYPE_TO_CLASS =
     [TYPE_INTEGER \<mapsto> KInteger, TYPE_NUMERIC \<mapsto> KNumeric, TYPE_STRING \<mapsto> KString,
      TYPE_NOMINAL \<mapsto> KNominal, TYPE_REAL \<mapsto> KNumeric, TYPE_DATE \<mapsto> KDate]"

definition construct :: "'h host \<Rightarrow> kind \<Rightarrow> 'h raw \<Rightarrow> error + 'h val" where
  \<comment> \<open>calling the class \<open>k\<close> on \<open>v\<close>, without a class flag\<close>
  "construct h k v =
     (case k of KInteger \<Rightarrow> Integer h v False | KNumeric \<Rightarrow> Numeric h v False
      | KString \<Rightarrow> String h v False | KNominal \<Rightarrow> Nominal v False | KDate \<Rightarrow> Date v False)"



section \<open>The dataset\<close>

text \<open>
  A stored row is a Python list (positional) or a dict (keyed by attribute name); a dict is
  an association list in insertion order, its keys distinct.
\<close>

datatype 'h row = Dense "'h entry list" | Sparse "(string \<times> 'h entry) list"

datatype comment = CLines "string list" | CText string

datatype pstate = Comment | In_header | Data

text \<open>
  The fields of an \<open>ArffFile\<close>. \<open>fout\<close> is the open sink of streaming mode, modelled by the
  list of lines printed to it; \<open>state\<close> exists only on an object made by \<open>parse\<close>;
  \<open>stdout\<close> collects the lines the methods print to standard output.
\<close>

record 'h arff =
  relation :: string
  attributes :: "string list"
  attribute_types :: "string \<rightharpoonup> string"
  attribute_data :: "string \<rightharpoonup> 'h adata"
  comment :: comment
  data :: "'h row list"
  lineno :: int
  fout :: "string list option"
  class_attr_name :: "string option"
  state :: "pstate option"
  stdout :: "string list"

definition new_arff :: "string \<Rightarrow> 'h arff" where
  \<comment> \<open>\<open>ArffFile(relation)\<close> with no schema\<close>
  "new_arff r =
     \<lparr>relation = r, attributes = [], attribute_types = Map.empty,
      attribute_data = Map.empty, comment = CLines [], data = [], lineno = 0,
      fout = None, class_attr_name = None, state = None, stdout = []\<rparr>"

definition define_attribute :: "'h arff \<Rightarrow> string \<Rightarrow> string \<Rightarrow> 'h adata \<Rightarrow> error + 'h arff" where
  \<comment> \<open>the name is appended before the type is checked\<close>
  "define_attribute a name atype d =
     (if atype \<notin> set TYPES then Inl AssertionError
      else Inr (a\<lparr>attributes := attributes a @ [name],
                 attribute_types := (attribute_types a)(name \<mapsto> atype),
                 attribute_data := (attribute_data a)(name \<mapsto> d)\<rparr>))"

section \<open>The writer\<close>

definition esc :: "string \<Rightarrow> string" where
  "esc s = replace [CHR 0x27, CHR 0x27] [CHR 0x27] ([CHR 0x27] @ s @ [CHR 0x27])"

definition convert_weka_to_py_date_pattern :: "string \<Rightarrow> string" where
  "convert_weka_to_py_date_pattern p =
     replace ''ss'' ''%S'' (replace ''mm'' ''%M'' (replace ''HH'' ''%H''
       (replace ''dd'' ''%d'' (replace ''MM'' ''%m'' (replace ''yyyy'' ''%Y'' p)))))"

definition smart_quote :: "'h raw \<Rightarrow> 'h raw" where
  "smart_quote s =
     (case s of
        RStr t \<Rightarrow> if CHR 0x20 \<in> set t \<and> hd t \<noteq> CHR 0x22
                  then RStr ([CHR 0x22] @ t @ [CHR 0x22]) else s
      | _ \<Rightarrow> s)"

definition data_strs :: "'h host \<Rightarrow> 'h adata \<Rightarrow> error + string list" where
  \<comment> \<open>\<open>map(str, x)\<close> for the extra data \<open>x\<close> of an attribute; text iterates by character\<close>
  "data_strs h x =
     (case x of
        ANone \<Rightarrow> Inl TypeError
      | AList vs \<Rightarrow> Inr (map (py_str h) vs)
      | ASet vs \<Rightarrow> Inr (map (py_str h) vs)
      | AStr t \<Rightarrow> Inr (map (\<lambda>c. [c]) t))"

definition date_text :: "'h host \<Rightarrow> 'h arff \<Rightarrow> string \<Rightarrow> 'h raw \<Rightarrow> error + string" where
  \<comment> \<open>the \<open>Date\<close> branch of \<open>write_line\<close>: the payload formatted by the attribute's pattern\<close>
  "date_text h a name p =
     (case (case attribute_data a name of None \<Rightarrow> AStr DEFAULT_DATE_FORMAT | Some x \<Rightarrow> x) of
        AStr fmt \<Rightarrow>
          (case p of
             RStr t \<Rightarrow> (case h_dateutil h t of
                          Inl e \<Rightarrow> Inl e
                        | Inr d \<Rightarrow> h_strftime h d (convert_weka_to_py_date_pattern fmt))
           | RDate d \<Rightarrow> h_strftime h d (convert_weka_to_py_date_pattern fmt)
           | _ \<Rightarrow> Inl AssertionError)
      | _ \<Rightarrow> Inl AttributeError)"

definition resolve :: "'h host \<Rightarrow> 'h arff \<Rightarrow> string \<Rightarrow> 'h entry \<Rightarrow> error + 'h raw" where
  \<comment> \<open>the \<open>if\<close>/\<open>elif\<close> chain of the sparse loop: the scalar a column's entry is written as\<close>
  "resolve h a name e =
     (case e of
        Raw v \<Rightarrow> Inr v
      | Val x \<Rightarrow>
          if payload x = RStr MISSING then Inr (RStr MISSING)
          else if kind x = KString
               then Inr (RStr ([CHR 0x22] @ py_str h (payload x) @ [CHR 0x22]))
          else if kind x = KDate
               then (case date_text h a name (payload x) of
                       Inl err \<Rightarrow> Inl err | Inr t \<Rightarrow> Inr (RStr t))
          else Inr (payload x))"

definition token :: "'h host \<Rightarrow> nat \<Rightarrow> 'h raw \<Rightarrow> string" where
  \<comment> \<open>\<open>'%i %s' % (i, smart_quote(v))\<close>\<close>
  "token h i v = str_of_int (int i) @ '' '' @ py_str h (smart_quote v)"

definition column ::
  "'h host \<Rightarrow> 'h arff \<Rightarrow> (string \<times> 'h entry) list \<Rightarrow> nat \<Rightarrow> string \<Rightarrow> error + string option"
where
  \<comment> \<open>one round of the sparse loop: the token of attribute \<open>name\<close> at index \<open>i\<close>, if any\<close>
  "column h a d i name =
     (case map_of d name of
        None \<Rightarrow> Inr None
      | Some (Raw RNone) \<Rightarrow> Inr None
      | Some e \<Rightarrow>
          (case resolve h a name e of
             Inl err \<Rightarrow> Inl err
           | Inr v \<Rightarrow>
               if v \<noteq> RStr MISSING
               then (case attribute_types a name of
                       None \<Rightarrow> Inl KeyError
                     | Some at \<Rightarrow>
                         if at = TYPE_NOMINAL
                         then (case attribute_data a name of
                                 None \<Rightarrow> Inl KeyError
                               | Some x \<Rightarrow>
                                   (case data_strs h x of
                                      Inl err \<Rightarrow> Inl err
                                    | Inr strs \<Rightarrow>
                                        if py_str h v \<notin> set strs then Inr None
                                        else Inr (Some (token h i v))))
                         else Inr (Some (token h i v)))
               else Inr (Some (token h i v))))"

fun columns ::
  "'h host \<Rightarrow> 'h arff \<Rightarrow> (string \<times> 'h entry) list \<Rightarrow> nat \<Rightarrow> string list \<Rightarrow> error + string list"
where
  \<comment> \<open>the sparse loop over \<open>enumerate(self.attributes)\<close>, from index \<open>i\<close>\<close>
  "columns h a d i [] = Inr []"
| "columns h a d i (name # names) =
     (case column h a d i name of
        Inl err \<Rightarrow> Inl err
      | Inr t \<Rightarrow>
          (case columns h a d (Suc i) names of
             Inl err \<Rightarrow> Inl err
           | Inr ts \<Rightarrow> Inr (case t of None \<Rightarrow> ts | Some x \<Rightarrow> x # ts)))"

definition finish_line :: "string list \<Rightarrow> string option" where
  \<comment> \<open>the end of the sparse branch: no line, or the tokens in braces\<close>
  "finish_line line =
     (if length line = 1 \<and> CHR ''?'' \<in> set (last line) then None
      else if line = [] then None
      else Some (''{'' @ join '', '' line @ ''}''))"

definition to_value :: "'h host \<Rightarrow> string option \<Rightarrow> 'h entry \<Rightarrow> error + 'h entry" where
  \<comment> \<open>wrapping one entry of a positional row by the declared type \<open>at\<close> of its attribute\<close>
  "to_value h at e =
     (case e of
        Val x \<Rightarrow> Inr (Val x)
      | Raw v \<Rightarrow>
          map_sum id Val
            (if v = RStr MISSING then String h v False
             else if at = Some TYPE_NUMERIC \<or> at = Some TYPE_REAL then Numeric h v False
             else if at = Some TYPE_STRING then String h v False
             else if at = Some TYPE_INTEGER then Integer h v False
             else if at = Some TYPE_NOMINAL then Nominal v False
             else if at = Some TYPE_DATE then Date v False
             else Inl (Exception (''Unknown type: '' @ (case at of None \<Rightarrow> ''None'' | Some t \<Rightarrow> t)))))"

fun to_values ::
  "'h host \<Rightarrow> 'h arff \<Rightarrow> (string \<times> 'h entry) list \<Rightarrow> error + (string \<times> 'h entry) list"
where
  "to_values h a [] = Inr []"
| "to_values h a ((k, e) # d) =
     (case to_value h (attribute_types a k) e of
        Inl err \<Rightarrow> Inl err
      | Inr e' \<Rightarrow> (case to_values h a d of Inl err \<Rightarrow> Inl err | Inr d' \<Rightarrow> Inr ((k, e') # d')))"

definition dict_of :: "('k \<times> 'v) list \<Rightarrow> ('k \<times> 'v) list" where
  \<comment> \<open>\<open>dict(pairs)\<close>: a later pair with the same key replaces the value, in the key's place\<close>
  "dict_of ps = foldl (\<lambda>d (k, v). AList.update k v d) [] ps"

definition row_dict ::
  "'h host \<Rightarrow> 'h arff \<Rightarrow> 'h row \<Rightarrow> error + (string \<times> 'h entry) list"
where
  \<comment> \<open>the row as a dict: a flat row is zipped with the attributes and each raw scalar
     wrapped by the declared type, a dict is taken as it is\<close>
  "row_dict h a d =
     (case d of
        Dense es \<Rightarrow> to_values h a (dict_of (zip (attributes a) es))
      | Sparse m \<Rightarrow> Inr m)"

definition write_line :: "'h host \<Rightarrow> 'h arff \<Rightarrow> 'h row \<Rightarrow> error + string option" where
  \<comment> \<open>\<open>write_line(d)\<close> with \<open>fmt=SPARSE\<close>, the default; \<open>None\<close> is "no line"\<close>
  "write_line h a d =
     (case row_dict h a d of
        Inl err \<Rightarrow> Inl err
      | Inr m \<Rightarrow> (case columns h a m 0 (attributes a) of
                   Inl err \<Rightarrow> Inl err
                 | Inr line \<Rightarrow> Inr (finish_line line)))"

definition nom_vals :: "'h adata \<Rightarrow> error + 'h raw list" where
  \<comment> \<open>\<open>[_ for _ in x if _ != MISSING]\<close>\<close>
  "nom_vals x =
     (case x of
        ANone \<Rightarrow> Inl TypeError
      | AList vs \<Rightarrow> Inr (filter (\<lambda>v. v \<noteq> RStr MISSING) vs)
      | ASet vs \<Rightarrow> Inr (filter (\<lambda>v. v \<noteq> RStr MISSING) vs)
      | AStr t \<Rightarrow> Inr (filter (\<lambda>v. v \<noteq> RStr MISSING) (map (\<lambda>c. RStr [c]) t)))"

definition attribute_line :: "'h host \<Rightarrow> 'h arff \<Rightarrow> string \<Rightarrow> error + string" where
  \<comment> \<open>one round of the loop of \<open>write_attributes\<close>\<close>
  "attribute_line h a n =
     (case attribute_types a n of
        None \<Rightarrow> Inl KeyError
      | Some at \<Rightarrow>
          if at = TYPE_INTEGER then Inr (''@attribute '' @ esc n @ '' integer'')
          else if at = TYPE_NUMERIC \<or> at = TYPE_REAL then Inr (''@attribute '' @ esc n @ '' numeric'')
          else if at = TYPE_STRING then Inr (''@attribute '' @ esc n @ '' string'')
          else if at = TYPE_NOMINAL
               then (case attribute_data a n of
                       None \<Rightarrow> Inl KeyError
                     | Some x \<Rightarrow>
                         (case nom_vals x of
                            Inl err \<Rightarrow> Inl err
                          | Inr vs \<Rightarrow>
                              (case h_sorted h vs of
                                 Inl err \<Rightarrow> Inl err
                               | Inr ws \<Rightarrow> Inr (''@attribute '' @ esc n @ '' {''
                                               @ join '','' (map (py_str h) ws) @ ''}''))))
          else if at = TYPE_DATE
               then Inr (''@attribute '' @ esc n @ '' date '' @ [CHR 0x22]
                         @ (case attribute_data a n of
                              None \<Rightarrow> DEFAULT_DATE_FORMAT
                            | Some ANone \<Rightarrow> ''None''
                            | Some (AStr t) \<Rightarrow> t
                            | Some x \<Rightarrow> h_repr h x)
                         @ [CHR 0x22])
          else Inl (Exception (''Type '' @ at @ '' not supported for writing!'')))"

fun write_attributes :: "'h host \<Rightarrow> 'h arff \<Rightarrow> string list \<Rightarrow> error + string list" where
  \<comment> \<open>the lines printed for the attributes \<open>ns\<close>\<close>
  "write_attributes h a [] = Inr []"
| "write_attributes h a (n # ns) =
     (case attribute_line h a n of
        Inl err \<Rightarrow> Inl err
      | Inr l \<Rightarrow> (case write_attributes h a ns of Inl err \<Rightarrow> Inl err | Inr ls \<Rightarrow> Inr (l # ls)))"

fun write_rows :: "'h host \<Rightarrow> 'h arff \<Rightarrow> 'h row list \<Rightarrow> error + string list" where
  \<comment> \<open>the loop over \<open>self.data\<close> in \<open>write\<close>\<close>
  "write_rows h a [] = Inr []"
| "write_rows h a (d # ds) =
     (case write_line h a d of
        Inl err \<Rightarrow> Inl err
      | Inr l \<Rightarrow>
          (case write_rows h a ds of
             Inl err \<Rightarrow> Inl err
           | Inr ls \<Rightarrow> Inr (case l of None \<Rightarrow> ls | Some t \<Rightarrow> if t = [] then ls else t # ls)))"

definition comment_text :: "comment \<Rightarrow> string" where
  \<comment> \<open>\<open>'\n'.join(self.comment)\<close>; joining text joins its characters\<close>
  "comment_text c =
     (case c of CLines ls \<Rightarrow> join [CHR 0x0A] ls | CText t \<Rightarrow> join [CHR 0x0A] (map (\<lambda>x. [x]) t))"

definition write_header :: "'h host \<Rightarrow> 'h arff \<Rightarrow> error + string list" where
  "write_header h a =
     (case write_attributes h a (attributes a) of
        Inl err \<Rightarrow> Inl err
      | Inr ls \<Rightarrow>
          Inr ([''% '' @ replace [CHR 0x0A] ([CHR 0x0A] @ ''% '') (comment_text (comment a)),
                ''@relation '' @ relation a] @ ls))"

definition write_data :: "'h host \<Rightarrow> 'h arff \<Rightarrow> error + string list" where
  "write_data h a =
     (case write_rows h a (data a) of Inl err \<Rightarrow> Inl err | Inr ls \<Rightarrow> Inr (''@data'' # ls))"

definition write_lines :: "'h host \<Rightarrow> 'h arff \<Rightarrow> bool \<Rightarrow> bool \<Rightarrow> error + string list" where
  \<comment> \<open>\<open>write(fmt=SPARSE, schema_only, data_only)\<close>: the strings printed, one per \<open>print\<close>\<close>
  "write_lines h a schema_only data_only =
     (if schema_only \<and> data_only then Inl AssertionError
      else (case (if \<not> data_only then write_header h a else Inr []) of
              Inl err \<Rightarrow> Inl err
            | Inr hs \<Rightarrow>
                (case (if \<not> schema_only then write_data h a else Inr []) of
                   Inl err \<Rightarrow> Inl err
                 | Inr ds \<Rightarrow> Inr (hs @ ds))))"

definition printed :: "string list \<Rightarrow> string" where
  \<comment> \<open>the text a sink holds after these prints: each string followed by a newline\<close>
  "printed ls = concat (map (\<lambda>l. l @ [CHR 0x0A]) ls)"

definition write_text :: "'h host \<Rightarrow> 'h arff \<Rightarrow> error + string" where
  \<comment> \<open>\<open>write()\<close> with its defaults: the whole document as text\<close>
  "write_text h a = map_sum id printed (write_lines h a False False)"

section \<open>The parser\<close>

definition is_ident_start :: "char \<Rightarrow> bool" where
  \<comment> \<open>the class \<open>[a-zA-Z_]\<close>\<close>
  "is_ident_start c =
     (let n = (of_char c :: nat) in (65 \<le> n \<and> n \<le> 90) \<or> (97 \<le> n \<and> n \<le> 122) \<or> c = CHR ''_'')"

definition is_ident_char :: "char \<Rightarrow> bool" where
  \<comment> \<open>the class \<open>[a-zA-Z0-9_\-\[\]]\<close>\<close>
  "is_ident_char c = (is_ident_start c \<or> is_digit c \<or> c = CHR ''-'' \<or> c = CHR ''['' \<or> c = CHR '']'')"

function findall_attr :: "string \<Rightarrow> string list" where
  \<comment> \<open>\<open>findall\<close> of the pattern of \<open>__parse_attribute\<close>: at each position the first of its
     four alternatives that matches (an identifier, \<open>{...}\<close>, \<open>'...'\<close>, \<open>"..."\<close>)\<close>
  "findall_attr [] = []"
| "findall_attr (c # cs) =
     (if is_ident_start c
      then (c # takeWhile is_ident_char cs) # findall_attr (dropWhile is_ident_char cs)
      else if c = CHR ''{'' \<and> CHR ''}'' \<in> set cs
      then (c # takeWhile (\<lambda>x. x \<noteq> CHR ''}'') cs @ ''}'')
           # findall_attr (tl (dropWhile (\<lambda>x. x \<noteq> CHR ''}'') cs))
      else if is_quote c \<and> c \<in> set cs \<and> takeWhile (\<lambda>x. x \<noteq> c) cs \<noteq> []
      then (c # takeWhile (\<lambda>x. x \<noteq> c) cs @ [c])
           # findall_attr (tl (dropWhile (\<lambda>x. x \<noteq> c) cs))
      else findall_attr cs)"
  by pat_completeness auto
termination
proof (relation "measure length")
  fix c :: char and cs :: string
  show "(dropWhile is_ident_char cs, c # cs) \<in> measure length"
    using length_dropWhile_le [of is_ident_char cs] by simp
  show "(tl (dropWhile (\<lambda>x. x \<noteq> CHR ''}'') cs), c # cs) \<in> measure length"
    using length_dropWhile_le [of "\<lambda>x. x \<noteq> CHR ''}''" cs] by simp
  show "(tl (dropWhile (\<lambda>x. x \<noteq> c) cs), c # cs) \<in> measure length"
    using length_dropWhile_le [of "\<lambda>x. x \<noteq> c" cs] by simp
qed simp_all

definition strip_quotes :: "string \<Rightarrow> string" where
  \<comment> \<open>\<open>STRIP_QUOTES_REGEX.sub('', s)\<close>: a quote at the start goes, and so does a quote at
     the end, or just before a final newline, when it is not the first character\<close>
  "strip_quotes s =
     (let cut = (\<lambda>t. if t \<noteq> [] \<and> is_quote (last t) then butlast t
                      else if 2 \<le> length t \<and> last t = CHR 0x0A \<and> is_quote (last (butlast t))
                           then butlast (butlast t) @ [CHR 0x0A]
                      else t)
      in case s of [] \<Rightarrow> [] | c # cs \<Rightarrow> if is_quote c then cut cs else c # cut cs)"

definition parse_relation :: "'h arff \<Rightarrow> string \<Rightarrow> error + 'h arff" where
  "parse_relation a l =
     (case split_ws l of
        _ # r # _ \<Rightarrow> Inr (a\<lparr>relation := r\<rparr>)
      | _ \<Rightarrow> Inl IndexError)"

definition parse_attribute :: "'h arff \<Rightarrow> string \<Rightarrow> error + 'h arff" where
  "parse_attribute a l =
     (case map strip (findall_attr l) of
        t0 # n # atype # rest \<Rightarrow>
          (let name = strip_quotes n in
           if atype = TYPE_INTEGER then define_attribute a name TYPE_INTEGER ANone
           else if atype = TYPE_REAL \<or> atype = TYPE_NUMERIC
                then define_attribute a name TYPE_NUMERIC ANone
           else if atype = TYPE_STRING then define_attribute a name TYPE_STRING ANone
           else if atype = TYPE_DATE
                then define_attribute a name TYPE_DATE
                       (case rest of [] \<Rightarrow> ANone | p # _ \<Rightarrow> AStr (strip_quotes p))
           else if atype = [] then Inl IndexError
           else if hd atype = CHR ''{'' \<and> last atype = CHR ''}''
                then define_attribute a name TYPE_NOMINAL
                       (AList (map (\<lambda>s. RStr (strip s)) (split_on CHR '','' (butlast (tl atype)))))
           else Inl (NotImplementedError
                       (''Unsupported type '' @ atype @ '' for attribute '' @ name @ ''.'')))
      | _ \<Rightarrow> Inl IndexError)"

fun split_unescaped :: "bool \<Rightarrow> string \<Rightarrow> string list" where
  \<comment> \<open>\<open>re.split(r'(?<!\\),', s)\<close>: the flag says that the character before is a backslash\<close>
  "split_unescaped b [] = [[]]"
| "split_unescaped b (x # xs) =
     (if x = CHR '','' \<and> \<not> b then [] # split_unescaped False xs
      else (case split_unescaped (x = CHR 0x5C) xs of
              [] \<Rightarrow> [[x]] | w # ws \<Rightarrow> (x # w) # ws))"

definition index_value :: "string \<Rightarrow> (string \<times> string) option" where
  \<comment> \<open>the first match of \<open>(^[0-9]+)\s+(.*)$\<close> in a string that \<open>strip\<close> returned: the
     digits at the start, whitespace, and the rest, which must hold no newline\<close>
  "index_value p =
     (let ds = takeWhile is_digit p; r = dropWhile is_digit p; v = dropWhile is_space r
      in if ds \<noteq> [] \<and> r \<noteq> [] \<and> is_space (hd r) \<and> CHR 0x0A \<notin> set v
         then Some (ds, v) else None)"

definition is_substring :: "string \<Rightarrow> string \<Rightarrow> bool" where
  \<comment> \<open>\<open>s in t\<close> for two strings\<close>
  "is_substring s t = list_ex (\<lambda>i. take (length s) (drop i t) = s) [0..<Suc (length t)]"

definition data_member :: "'h host \<Rightarrow> 'h raw \<Rightarrow> 'h adata \<Rightarrow> error + bool" where
  \<comment> \<open>\<open>v in x\<close> for the extra data \<open>x\<close> of an attribute\<close>
  "data_member h v x =
     (case x of
        ANone \<Rightarrow> Inl TypeError
      | AList vs \<Rightarrow> Inr (list_ex (\<lambda>w. py_eq h w v) vs)
      | ASet vs \<Rightarrow> Inr (list_ex (\<lambda>w. py_eq h w v) vs)
      | AStr t \<Rightarrow> (case v of RStr s \<Rightarrow> Inr (is_substring s t) | _ \<Rightarrow> Inl TypeError))"

definition sparse_part ::
  "'h host \<Rightarrow> 'h arff \<Rightarrow> (string \<times> 'h entry) list \<Rightarrow> string \<Rightarrow> error + (string \<times> 'h entry) list"
where
  \<comment> \<open>one round of the loop over the parts of a sparse line\<close>
  "sparse_part h a dline part =
     (case index_value (strip part) of
        None \<Rightarrow> Inl IndexError
      | Some (ds, v) \<Rightarrow>
          (let index = the (nat_of_digits 0 ds);
               val = (if v \<noteq> [] \<and> hd v = last v \<and> is_quote (hd v) then butlast (tl v) else v)
           in if v = [] \<or> length (attributes a) \<le> index then Inl IndexError
              else (let name = attributes a ! index in
                    case attribute_types a name of
                      None \<Rightarrow> Inl KeyError
                    | Some at \<Rightarrow>
                        (case TYPE_TO_CLASS at of
                           None \<Rightarrow> Inl KeyError
                         | Some k \<Rightarrow>
                             (case (if val = MISSING then String h (RStr val) False
                                    else construct h k (RStr val)) of
                                Inl err \<Rightarrow> Inl err
                              | Inr x \<Rightarrow> Inr (AList.update name (Val x) dline))))))"

fun sparse_parts ::
  "'h host \<Rightarrow> 'h arff \<Rightarrow> (string \<times> 'h entry) list \<Rightarrow> string list \<Rightarrow> error + (string \<times> 'h entry) list"
where
  "sparse_parts h a dline [] = Inr dline"
| "sparse_parts h a dline (p # ps) =
     (case sparse_part h a dline p of
        Inl err \<Rightarrow> Inl err
      | Inr dline' \<Rightarrow> sparse_parts h a dline' ps)"

definition dense_field :: "'h host \<Rightarrow> 'h arff \<Rightarrow> string \<Rightarrow> string \<Rightarrow> error + 'h entry list" where
  \<comment> \<open>one round of the dense loop: what field \<open>v\<close> of attribute \<open>n\<close> adds to \<open>datum\<close>.
     The chain has no branch for the type \<open>date\<close> and no \<open>else\<close>\<close>
  "dense_field h a n v =
     (case attribute_types a n of
        None \<Rightarrow> Inl KeyError
      | Some at \<Rightarrow>
          if v = MISSING then Inr [Raw (RStr v)]
          else if at = TYPE_INTEGER
               then (case int_of_str v of None \<Rightarrow> Inl ValueError | Some i \<Rightarrow> Inr [Raw (RInt i)])
          else if at = TYPE_NUMERIC \<or> at = TYPE_REAL
               then (case h_decimal h v of Inl err \<Rightarrow> Inl err | Inr d \<Rightarrow> Inr [Raw (RDecimal d)])
          else if at = TYPE_STRING then Inr [Raw (RStr v)]
          else if at = TYPE_NOMINAL
               then (case attribute_data a n of
                       None \<Rightarrow> Inl KeyError
                     | Some x \<Rightarrow>
                         (case data_member h (RStr v) x of
                            Inl err \<Rightarrow> Inl err
                          | Inr True \<Rightarrow> Inr [Raw (RStr v)]
                          | Inr False \<Rightarrow>
                              Inl (Exception (''Incorrect value '' @ v
                                              @ '' for nominal attribute '' @ n))))
          else Inr [])"

fun dense_fields :: "'h host \<Rightarrow> 'h arff \<Rightarrow> (string \<times> string) list \<Rightarrow> error + 'h entry list" where
  \<comment> \<open>the dense loop over \<open>zip(self.attributes, l)\<close>\<close>
  "dense_fields h a [] = Inr []"
| "dense_fields h a ((n, v) # nvs) =
     (case dense_field h a n v of
        Inl err \<Rightarrow> Inl err
      | Inr es \<Rightarrow> (case dense_fields h a nvs of Inl err \<Rightarrow> Inl err | Inr fs \<Rightarrow> Inr (es @ fs)))"

definition warning :: "int \<Rightarrow> nat \<Rightarrow> nat \<Rightarrow> string" where
  "warning ln n m =
     ''Warning: line '' @ str_of_int ln @ '' contains '' @ str_of_int (int n)
     @ '' values but it should contain '' @ str_of_int (int m) @ '' values''"

definition emit :: "'h arff \<Rightarrow> string option \<Rightarrow> 'h arff" where
  \<comment> \<open>\<open>if line_str: print(line_str, file=self.fout)\<close>\<close>
  "emit a l =
     (case l of
        None \<Rightarrow> a
      | Some t \<Rightarrow> if t = [] then a else a\<lparr>fout := map_option (\<lambda>ls. ls @ [t]) (fout a)\<rparr>)"

definition parse_data :: "'h host \<Rightarrow> 'h arff \<Rightarrow> string \<Rightarrow> error + 'h arff" where
  \<comment> \<open>\<open>_parse_data(l)\<close> for a line of text\<close>
  "parse_data h a l0 =
     (let l = strip l0 in
      if startswith l ''{''
      then (if \<not> endswith l ''}'' then Inl AssertionError
            else if fout a \<noteq> None then Inl AssertionError
            else (case sparse_parts h a [] (split_unescaped False (butlast (tl l))) of
                    Inl err \<Rightarrow> Inl err
                  | Inr dline \<Rightarrow> Inr (a\<lparr>data := data a @ [Sparse dline]\<rparr>)))
      else (let fs = map strip (split_on CHR '','' l) in
            if length fs \<noteq> length (attributes a)
            then Inr (a\<lparr>stdout := stdout a
                          @ [warning (lineno a) (length fs) (length (attributes a))]\<rparr>)
            else (case dense_fields h a (zip (attributes a) fs) of
                    Inl err \<Rightarrow> Inl err
                  | Inr datum \<Rightarrow>
                      if fout a \<noteq> None
                      then (case write_line h a (Dense datum) of
                              Inl err \<Rightarrow> Inl err
                            | Inr t \<Rightarrow> Inr (emit a t))
                      else Inr (a\<lparr>data := data a @ [Dense datum]\<rparr>))))"

definition parse_header :: "'h arff \<Rightarrow> string \<Rightarrow> error + 'h arff" where
  \<comment> \<open>\<open>parseline\<close> in the state \<open>in_header\<close>: three tests, one after the other\<close>
  "parse_header a l =
     (let ll = lower l in
      case (if startswith ll ''@relation '' then parse_relation a l else Inr a) of
        Inl err \<Rightarrow> Inl err
      | Inr a1 \<Rightarrow>
          (case (if startswith ll ''@attribute '' then parse_attribute a1 l else Inr a1) of
             Inl err \<Rightarrow> Inl err
           | Inr a2 \<Rightarrow> Inr (if startswith ll ''@data'' then a2\<lparr>state := Some Data\<rparr> else a2)))"

definition parseline :: "'h host \<Rightarrow> 'h arff \<Rightarrow> string \<Rightarrow> error + 'h arff" where
  "parseline h a l =
     (case state a of
        None \<Rightarrow> Inl AttributeError
      | Some Comment \<Rightarrow>
          if l \<noteq> [] \<and> hd l = CHR ''%''
          then (case comment a of
                  CLines ls \<Rightarrow> Inr (a\<lparr>comment := CLines (ls @ [drop 2 l])\<rparr>)
                | CText _ \<Rightarrow> Inl AttributeError)
          else parse_header (a\<lparr>comment := CText (comment_text (comment a)),
                                state := Some In_header\<rparr>) l
      | Some In_header \<Rightarrow> parse_header a l
      | Some Data \<Rightarrow> if l \<noteq> [] \<and> hd l \<noteq> CHR ''%'' then parse_data h a l else Inr a)"

fun parse_lines :: "'h host \<Rightarrow> bool \<Rightarrow> 'h arff \<Rightarrow> string list \<Rightarrow> error + 'h arff" where
  \<comment> \<open>the loop of \<open>parse\<close> over the lines\<close>
  "parse_lines h schema_only a [] = Inr a"
| "parse_lines h schema_only a (l # ls) =
     (case parseline h a l of
        Inl err \<Rightarrow> Inl err
      | Inr a1 \<Rightarrow>
          (let a2 = a1\<lparr>lineno := lineno a1 + 1\<rparr> in
           if schema_only \<and> state a2 = Some Data then Inr a2
           else parse_lines h schema_only a2 ls))"

definition parse :: "'h host \<Rightarrow> string \<Rightarrow> bool \<Rightarrow> error + 'h arff" where
  "parse h s schema_only =
     parse_lines h schema_only ((new_arff [])\<lparr>state := Some Comment, lineno := 1\<rparr>)
       (splitlines s)"

section \<open>Appending rows\<close>

text \<open>
  \<open>append\<close> is modelled for a row given as a dict. Its loop over the fields works on the
  dataset, on the row (fields are deleted from the caller's dict) and on the flag
  \<open>schema_change\<close>.
\<close>

definition move_class_last :: "'h arff \<Rightarrow> 'h arff" where
  \<comment> \<open>the end of a round: \<open>remove\<close> takes the first occurrence out, \<open>ValueError\<close> is passed\<close>
  "move_class_last a =
     (case class_attr_name a of
        None \<Rightarrow> a
      | Some c \<Rightarrow>
          if c \<noteq> [] \<and> c \<in> set (attributes a)
          then a\<lparr>attributes := remove1 c (attributes a) @ [c]\<rparr>
          else a)"

definition field_value ::
  "'h host \<Rightarrow> 'h arff \<Rightarrow> string \<Rightarrow> 'h entry \<Rightarrow> string option \<Rightarrow> error + 'h arff \<times> 'h val"
where
  \<comment> \<open>the field as a Value: a raw scalar is wrapped by the class of \<open>prior_type\<close>, after a
     line of debugging output\<close>
  "field_value h a k e prior_type =
     (case e of
        Val x \<Rightarrow> Inr (a, x)
      | Raw v \<Rightarrow>
          if v = RStr MISSING then map_sum id (\<lambda>x. (a, x)) (String h v False)
          else (let a' = a\<lparr>stdout := stdout a
                             @ [''prior_type: ''
                                @ (case prior_type of None \<Rightarrow> ''None'' | Some t \<Rightarrow> t)
                                @ '' '' @ k @ '' '' @ py_str h v]\<rparr>
                in case prior_type of
                     None \<Rightarrow> Inl KeyError
                   | Some t \<Rightarrow>
                       (case TYPE_TO_CLASS t of
                          None \<Rightarrow> Inl KeyError
                        | Some c \<Rightarrow> map_sum id (\<lambda>x. (a', x)) (construct h c v))))"

definition undeclared_step ::
  "'h arff \<times> (string \<times> 'h entry) list \<times> bool \<Rightarrow> string \<Rightarrow> 'h val
   \<Rightarrow> 'h arff \<times> (string \<times> 'h entry) list \<times> bool"
where
  \<comment> \<open>\<open>if k not in self.attribute_types\<close>: dropped from the row when streaming, declared
     otherwise\<close>
  "undeclared_step st k v =
     (case st of (a, line, sc) \<Rightarrow>
        if attribute_types a k = None
        then (if fout a \<noteq> None then (a, AList.delete k line, sc)
              else (a\<lparr>attribute_types := (attribute_types a)(k \<mapsto> c_type (kind v)),
                      attributes := attributes a @ [k]\<rparr>, line, True))
        else (a, line, sc))"

definition nominal_step ::
  "'h host \<Rightarrow> 'h arff \<times> (string \<times> 'h entry) list \<times> bool \<Rightarrow> string \<Rightarrow> 'h val
   \<Rightarrow> error + 'h arff \<times> (string \<times> 'h entry) list \<times> bool"
where
  \<comment> \<open>\<open>if isinstance(v, Nominal)\<close>: dropped from the row when streaming and outside the
     declared values, added to the declared values otherwise\<close>
  "nominal_step h st k v =
     (case st of (a, line, sc) \<Rightarrow>
        if kind v \<noteq> KNominal then Inr (a, line, sc)
        else if fout a \<noteq> None
        then (if k \<notin> set (attributes a) then Inr (a, AList.delete k line, sc)
              else (case attribute_data a k of
                      None \<Rightarrow> Inl KeyError
                    | Some x \<Rightarrow>
                        (case data_member h (payload v) x of
                           Inl err \<Rightarrow> Inl err
                         | Inr True \<Rightarrow> Inr (a, line, sc)
                         | Inr False \<Rightarrow> Inr (a, AList.delete k line, sc))))
        else (let x = (case attribute_data a k of None \<Rightarrow> ASet [] | Some y \<Rightarrow> y);
                  a' = a\<lparr>attribute_data := (attribute_data a)(k \<mapsto> x)\<rparr>
              in case data_member h (payload v) x of
                   Inl err \<Rightarrow> Inl err
                 | Inr True \<Rightarrow> Inr (a', line, sc)
                 | Inr False \<Rightarrow>
                     (case x of
                        ASet vs \<Rightarrow>
                          Inr (a\<lparr>attribute_data :=
                                    (attribute_data a)(k \<mapsto> ASet (vs @ [payload v]))\<rparr>,
                               line, True)
                      | _ \<Rightarrow> Inl AttributeError)))"

definition class_step :: "'h arff \<Rightarrow> string \<Rightarrow> 'h val \<Rightarrow> error + 'h arff" where
  \<comment> \<open>\<open>if v.cls\<close>: the first flagged attribute becomes the class attribute, another one
     later fails the assertion\<close>
  "class_step a k v =
     (if cls v
      then (case class_attr_name a of
              None \<Rightarrow> Inr (a\<lparr>class_attr_name := Some k\<rparr>)
            | Some c \<Rightarrow> if c = k then Inr a else Inl AssertionError)
      else Inr a)"

definition append_field ::
  "'h host \<Rightarrow> 'h arff \<times> (string \<times> 'h entry) list \<times> bool \<Rightarrow> string \<times> 'h entry
   \<Rightarrow> error + 'h arff \<times> (string \<times> 'h entry) list \<times> bool"
where
  \<comment> \<open>one round of the loop over \<open>list(line.items())\<close>\<close>
  "append_field h st kv =
     (case st of (a, line, sc) \<Rightarrow>
      case kv of (k, e) \<Rightarrow>
      let prior_type = (case attribute_types a k of
                          Some t \<Rightarrow> Some t
                        | None \<Rightarrow> (case e of Val x \<Rightarrow> Some (c_type (kind x)) | Raw _ \<Rightarrow> None))
      in
      case field_value h a k e prior_type of
        Inl err \<Rightarrow> Inl err
      | Inr (a0, v) \<Rightarrow>
          if payload v \<noteq> RStr MISSING \<and> prior_type \<noteq> Some (c_type (kind v))
          then Inl AssertionError
          else (case nominal_step h (undeclared_step (a0, line, sc) k v) k v of
                  Inl err \<Rightarrow> Inl err
                | Inr (a2, line2, sc2) \<Rightarrow>
                    (case class_step a2 k v of
                       Inl err \<Rightarrow> Inl err
                     | Inr a3 \<Rightarrow> Inr (move_class_last a3, line2, sc2))))"

fun append_fields ::
  "'h host \<Rightarrow> 'h arff \<times> (string \<times> 'h entry) list \<times> bool \<Rightarrow> (string \<times> 'h entry) list
   \<Rightarrow> error + 'h arff \<times> (string \<times> 'h entry) list \<times> bool"
where
  "append_fields h st [] = Inr st"
| "append_fields h st (kv # kvs) =
     (case append_field h st kv of
        Inl err \<Rightarrow> Inl err
      | Inr st' \<Rightarrow> append_fields h st' kvs)"

definition update_schema ::
  "'h host \<Rightarrow> 'h arff \<Rightarrow> (string \<times> 'h entry) list
   \<Rightarrow> error + 'h arff \<times> (string \<times> 'h entry) list"
where
  \<comment> \<open>the part of \<open>append\<close> under \<open>if update_schema\<close>: the dataset and the row after it\<close>
  "update_schema h a line =
     (case append_fields h (a, line, False) line of
        Inl err \<Rightarrow> Inl err
      | Inr (a', line', sc) \<Rightarrow>
          if sc \<and> fout a' \<noteq> None then Inl AssertionError else Inr (a', line'))"

definition store :: "'h host \<Rightarrow> 'h arff \<Rightarrow> (string \<times> 'h entry) list \<Rightarrow> error + 'h arff" where
  \<comment> \<open>the part of \<open>append\<close> under \<open>if not schema_only\<close>\<close>
  "store h a line =
     (if fout a \<noteq> None
      then (case write_line h a (Sparse line) of
              Inl err \<Rightarrow> Inl err
            | Inr t \<Rightarrow> Inr (emit a t))
      else Inr (a\<lparr>data := data a @ [Sparse line]\<rparr>))"

definition append ::
  "'h host \<Rightarrow> 'h arff \<Rightarrow> (string \<times> 'h entry) list \<Rightarrow> bool \<Rightarrow> bool \<Rightarrow> error + 'h arff"
where
  \<comment> \<open>\<open>append(line, schema_only, update_schema)\<close> for a dict \<open>line\<close>\<close>
  "append h a line schema_only upd =
     (case (if upd then update_schema h a line else Inr (a, line)) of
        Inl err \<Rightarrow> Inl err
      | Inr (a', line') \<Rightarrow> if schema_only then Inr a' else store h a' line')"

definition open_stream :: "'h host \<Rightarrow> 'h arff \<Rightarrow> string option \<Rightarrow> error + 'h arff" where
  \<comment> \<open>\<open>open_stream(class_attr_name)\<close>: the sink is opened, then header and rows are printed\<close>
  "open_stream h a cn =
     (let a1 = (case cn of
                  None \<Rightarrow> a
                | Some c \<Rightarrow> if c = [] then a else a\<lparr>class_attr_name := Some c\<rparr>)
      in case write_lines h a1 True False of
           Inl err \<Rightarrow> Inl err
         | Inr hs \<Rightarrow>
             (case write_lines h a1 False True of
                Inl err \<Rightarrow> Inl err
              | Inr ds \<Rightarrow> Inr (a1\<lparr>fout := Some (hs @ ds)\<rparr>)))"

section \<open>What a streaming append keeps of a row\<close>

text \<open>
  Two predicates on a field \<open>k: v\<close> of an appended row and the schema of the dataset, read
  off the loop of \<open>append\<close> in streaming mode. They are used to state what that loop does.
\<close>

definition outside_schema :: "'h host \<Rightarrow> 'h arff \<Rightarrow> string \<Rightarrow> 'h entry \<Rightarrow> bool" where
  \<comment> \<open>the field is deleted from the row: its name has no declared type, or it is a Nominal Value whose name is not listed or whose payload is not among the declared values\<close>
  "outside_schema h a k e =
     (attribute_types a k = None
      \<or> (case e of
            Raw _ \<Rightarrow> False
          | Val v \<Rightarrow>
              kind v = KNominal
              \<and> (k \<notin> set (attributes a)
                 \<or> (case attribute_data a k of
                       None \<Rightarrow> False
                     | Some x \<Rightarrow> data_member h (payload v) x = Inr False))))"

definition fits_schema :: "'h host \<Rightarrow> 'h arff \<Rightarrow> string \<Rightarrow> string \<Rightarrow> 'h val \<Rightarrow> bool" where
  \<comment> \<open>the field passes the checks of the loop: its kind is the declared type (unless it is missing or undeclared), the declared values of a listed Nominal can be searched, and a class flag names the class attribute \<open>c\<close>\<close>
  "fits_schema h a c k v =
     ((payload v = RStr MISSING \<or> attribute_types a k = None
        \<or> attribute_types a k = Some (c_type (kind v)))
      \<and> (kind v \<noteq> KNominal \<or> k \<notin> set (attributes a)
         \<or> (case attribute_data a k of
               None \<Rightarrow> False
             | Some x \<Rightarrow> (case data_member h (payload v) x of Inl _ \<Rightarrow> False | Inr _ \<Rightarrow> True)))
      \<and> (\<not> cls v \<or> k = c))"

definition trim_step ::
  "'h host \<Rightarrow> 'h arff \<Rightarrow> string \<times> 'h entry \<Rightarrow> (string \<times> 'h entry) list \<Rightarrow> (string \<times> 'h entry) list"
where
  \<comment> \<open>what one round does to the row\<close>
  "trim_step h a kv l = (if outside_schema h a (fst kv) (snd kv) then AList.delete (fst kv) l else l)"

definition stream_frame :: "'h arff \<Rightarrow> 'h arff \<Rightarrow> bool" where
  \<comment> \<open>what the loop leaves of the schema: types, extra data and sink as they were, the same attributes, and the same order while no class attribute is set\<close>
  "stream_frame a a' =
     (attribute_types a' = attribute_types a \<and> attribute_data a' = attribute_data a
      \<and> fout a' = fout a \<and> mset (attributes a') = mset (attributes a)
      \<and> (class_attr_name a' = None \<longrightarrow> attributes a' = attributes a))"

section \<open>A host for the examples\<close>

text \<open>
  The examples below run on a small host whose floats, decimals and calendar values are
  all integers: a float prints as the integer followed by \<open>.0\<close>, and text converts to a
  float when it is an integer, with or without that ending.
\<close>

definition int_text :: "string \<Rightarrow> int option" where
  "int_text s = (if endswith s ''.0'' then int_of_str (take (length s - 2) s) else int_of_str s)"

definition int_num :: "int raw \<Rightarrow> int option" where
  "int_num v = (case v of RInt i \<Rightarrow> Some i | RFloat x \<Rightarrow> Some x | RDecimal x \<Rightarrow> Some x
                | _ \<Rightarrow> None)"

definition int_host :: "int host" where
  "int_host =
     \<lparr>h_float = (\<lambda>v. case v of
                       RStr s \<Rightarrow> (case int_text s of None \<Rightarrow> Inl ValueError | Some i \<Rightarrow> Inr i)
                     | _ \<Rightarrow> (case int_num v of None \<Rightarrow> Inl TypeError | Some i \<Rightarrow> Inr i)),
      h_int = (\<lambda>v. case int_num v of None \<Rightarrow> Inl TypeError | Some i \<Rightarrow> Inr i),
      h_str = (\<lambda>v. case v of RFloat x \<Rightarrow> str_of_int x @ ''.0'' | RDecimal x \<Rightarrow> str_of_int x
                    | RDate x \<Rightarrow> str_of_int x | _ \<Rightarrow> []),
      h_eq = (\<lambda>a b. int_num a \<noteq> None \<and> int_num a = int_num b),
      h_decimal = (\<lambda>s. case int_text s of None \<Rightarrow> Inl InvalidOperation | Some i \<Rightarrow> Inr i),
      h_dateutil = (\<lambda>s. case int_of_str s of None \<Rightarrow> Inl ValueError | Some i \<Rightarrow> Inr i),
      h_strftime = (\<lambda>d p. Inr (str_of_int d)),
      h_sorted = (\<lambda>vs. Inr vs),
      h_repr = (\<lambda>x. [])\<rparr>"

text \<open>Datasets and documents of the examples.\<close>

definition two_integers :: "int arff" where
  \<comment> \<open>two integer attributes, in the data section at line 7\<close>
  "two_integers =
     (new_arff ''r'')\<lparr>attributes := [''x'', ''y''],
       attribute_types := [''x'' \<mapsto> TYPE_INTEGER, ''y'' \<mapsto> TYPE_INTEGER],
       attribute_data := [''x'' \<mapsto> ANone, ''y'' \<mapsto> ANone],
       state := Some Data, lineno := 7\<rparr>"

definition one_string :: "int arff" where
  \<comment> \<open>one string attribute\<close>
  "one_string =
     (new_arff ''r'')\<lparr>attributes := [''q''], attribute_types := [''q'' \<mapsto> TYPE_STRING],
       attribute_data := [''q'' \<mapsto> ANone]\<rparr>"

definition date_document :: string where
  \<comment> \<open>a date attribute declared without a pattern, an integer attribute, one dense row\<close>
  "date_document =
     ''@relation r'' @ [CHR 0x0A] @ ''@attribute d date'' @ [CHR 0x0A]
     @ ''@attribute n integer'' @ [CHR 0x0A] @ ''@data'' @ [CHR 0x0A]
     @ ''2020-01-02,5'' @ [CHR 0x0A]"


definition one_numeric_stream :: "int arff" where
  \<comment> \<open>one numeric attribute, streaming\<close>
  "one_numeric_stream =
     (new_arff ''r'')\<lparr>attributes := [''a''], attribute_types := [''a'' \<mapsto> TYPE_NUMERIC],
       attribute_data := [''a'' \<mapsto> ANone], fout := Some []\<rparr>"

definition two_numeric_stream :: "int arff" where
  \<comment> \<open>two numeric attributes, streaming\<close>
  "two_numeric_stream =
     (new_arff ''r'')\<lparr>attributes := [''a'', ''b''],
       attribute_types := [''a'' \<mapsto> TYPE_NUMERIC, ''b'' \<mapsto> TYPE_NUMERIC],
       attribute_data := [''a'' \<mapsto> ANone, ''b'' \<mapsto> ANone], fout := Some []\<rparr>"

definition numeric_and_nominal_stream :: "int arff" where
  \<comment> \<open>the schema \<open>[a: Numeric, b: {x,y}]\<close>, streaming\<close>
  "numeric_and_nominal_stream =
     (new_arff ''r'')\<lparr>attributes := [''a'', ''b''],
       attribute_types := [''a'' \<mapsto> TYPE_NUMERIC, ''b'' \<mapsto> TYPE_NOMINAL],
       attribute_data := [''a'' \<mapsto> ANone, ''b'' \<mapsto> ASet [RStr ''x'', RStr ''y'']],
       fout := Some []\<rparr>"

definition trimmed_row :: "(string \<times> int entry) list" where
  \<comment> \<open>a row with a value outside the nominal set and a field that is not declared\<close>
  "trimmed_row =
     [(''a'', Val (Value KNumeric (RFloat 2) False)),
      (''b'', Val (Value KNominal (RStr ''z'') False)),
      (''u'', Val (Value KString (RStr ''w'') False))]"

section \<open>Properties\<close>

subsection \<open>Equality of Values\<close>

text \<open>
  C10. For two Value objects \<open>a\<close> and \<open>b\<close>, \<open>a == b\<close> is \<open>a.value == b.value\<close>: neither
  the kind nor the class flag takes part. So on a host where \<open>float(1.0)\<close> is \<open>1.0\<close> and
  \<open>1 == 1.0\<close>, \<open>Integer(1, cls=True)\<close> equals \<open>Numeric(1.0, cls=False)\<close>.
\<close>

theorem Value_eq_payload_only:
  "Value_eq h (Value k1 p c1) (Val (Value k2 q c2)) = Some (py_eq h p q)
   \<and> (h_float h (RFloat one) = Inr one \<and> h_eq h (RInt 1) (RFloat one) \<longrightarrow>
        (case (Integer h (RInt 1) True, Numeric h (RFloat one) False) of
           (Inr a, Inr b) \<Rightarrow> Value_eq h a (Val b) = Some True
         | _ \<Rightarrow> False))"
  by (simp add: Value_eq_def Integer_def Numeric_def py_int_def py_float_def py_eq_def MISSING_def)

theorem Value_eq_payload_only_witness:
  "h_float int_host (RFloat 1) = Inr 1 \<and> h_eq int_host (RInt 1) (RFloat 1)
   \<and> Integer int_host (RInt 1) True = Inr (Value KInteger (RInt 1) True)
   \<and> Numeric int_host (RFloat 1) False = Inr (Value KNumeric (RFloat 1) False)
   \<and> Value_eq int_host (Value KInteger (RInt 1) True) (Val (Value KNumeric (RFloat 1) False))
       = Some True"
  using Value_eq_payload_only [of int_host KInteger "RInt 1" True KNumeric "RFloat 1" False 1]
  by (simp add: int_host_def int_num_def Integer_def Numeric_def py_int_def py_float_def
      MISSING_def Value_eq_def py_eq_def)

subsection \<open>The inference order of \<open>wrap_value\<close>\<close>




subsection \<open>A date attribute declared without a pattern\<close>

text \<open>
  C9. The claim: a date declaration without a pattern token uses a default pattern, and
  the header writer emits that default, quoted. The code: the declaration stores \<open>None\<close>
  as the attribute's data, and the writer's \<open>get(a, DEFAULT_DATE_FORMAT)\<close> finds that
  \<open>None\<close>, so the directive written is \<open>@attribute 'd' date "None"\<close>.
\<close>

theorem date_without_pattern_written_as_None:
  "(case parse_attribute (new_arff []) ''@attribute d date'' of
      Inl e \<Rightarrow> Inl e
    | Inr a \<Rightarrow> Inr (attribute_data a ''d'', attribute_line int_host a ''d''))
   = Inr (Some ANone,
          Inr (''@attribute '' @ [CHR 0x27] @ ''d'' @ [CHR 0x27] @ '' date ''
               @ [CHR 0x22] @ ''None'' @ [CHR 0x22]))"
  by code_simp

subsection \<open>A date field in a dense row\<close>

text \<open>
  C8. The claim: a dense line with the right number of fields keeps the field of a Date
  attribute as raw text, so the stored row has one entry per attribute. The code: the
  chain of the dense loop has no branch for the type \<open>date\<close>, so the field is left out
  and the row of two fields is stored with one entry.
\<close>

theorem dense_date_field_left_out:
  "map_sum id (\<lambda>a. (attributes a, data a)) (parse int_host date_document False)
   = Inr ([''d'', ''n''], [Dense [Raw (RInt 5)]])"
  unfolding date_document_def by code_simp

subsection \<open>Rows that are not written\<close>

text \<open>
  C6. The claim: the sparse \<open>write_line\<close> returns no line exactly when no token is left or
  the only token's value is the missing marker. The code tests whether the only token
  contains the character \<open>?\<close>, so a row whose one value is the text \<open>why?\<close> is not written
  either, while the same row with \<open>why\<close> is.
\<close>

theorem single_token_with_question_mark_not_written:
  "write_line int_host one_string (Sparse [(''q'', Val (Value KString (RStr ''why?'') False))])
     = Inr None
   \<and> write_line int_host one_string (Sparse [(''q'', Val (Value KString (RStr ''why'') False))])
     = Inr (Some (''{0 '' @ [CHR 0x22] @ ''why'' @ [CHR 0x22] @ ''}''))"
  unfolding one_string_def by code_simp

subsection \<open>A dense line with the wrong number of fields\<close>

text \<open>
  C5. In the data section, a dense line (not a comment, not starting with a brace once
  stripped) whose number of comma-separated fields differs from the number of attributes
  prints a warning with the line number and both numbers, leaves the rows as they are,
  raises nothing, and \<open>parse\<close> goes on with the next line.
\<close>

theorem dense_count_mismatch:
  assumes "state a = Some Data" and "l \<noteq> []" and "hd l \<noteq> CHR ''%''"
    and "\<not> startswith (strip l) ''{''"
    and "length (split_on CHR '','' (strip l)) \<noteq> length (attributes a)"
  shows "parseline h a l =
           Inr (a\<lparr>stdout := stdout a
                  @ [''Warning: line '' @ str_of_int (lineno a) @ '' contains ''
                     @ str_of_int (int (length (split_on CHR '','' (strip l))))
                     @ '' values but it should contain ''
                     @ str_of_int (int (length (attributes a))) @ '' values'']\<rparr>)
         \<and> map_sum id data (parseline h a l) = Inr (data a)
         \<and> parse_lines h False a (l # ls) =
             parse_lines h False
               (a\<lparr>stdout := stdout a
                  @ [''Warning: line '' @ str_of_int (lineno a) @ '' contains ''
                     @ str_of_int (int (length (split_on CHR '','' (strip l))))
                     @ '' values but it should contain ''
                     @ str_of_int (int (length (attributes a))) @ '' values''],
                  lineno := lineno a + 1\<rparr>) ls"
proof -
  have "parse_data h a l =
           Inr (a\<lparr>stdout := stdout a
                  @ [warning (lineno a) (length (split_on CHR '','' (strip l)))
                       (length (attributes a))]\<rparr>)"
    using assms(4,5) by (simp add: parse_data_def Let_def)
  then have *: "parseline h a l =
           Inr (a\<lparr>stdout := stdout a
                  @ [warning (lineno a) (length (split_on CHR '','' (strip l)))
                       (length (attributes a))]\<rparr>)"
    using assms(1-3) by (simp add: parseline_def)
  show ?thesis
    by (simp add: * warning_def)
qed

theorem dense_count_mismatch_witness:
  "state two_integers = Some Data \<and> ''1,2,3'' \<noteq> [] \<and> hd ''1,2,3'' \<noteq> CHR ''%''
   \<and> \<not> startswith (strip ''1,2,3'') ''{''
   \<and> length (split_on CHR '','' (strip ''1,2,3'')) \<noteq> length (attributes two_integers)
   \<and> map_sum id stdout (parseline int_host two_integers ''1,2,3'')
       = Inr [''Warning: line 7 contains 3 values but it should contain 2 values'']
   \<and> map_sum id data (parseline int_host two_integers ''1,2,3'') = Inr []"
proof -
  have 1: "state two_integers = Some Data" by (simp add: two_integers_def)
  have 2: "\<not> startswith (strip ''1,2,3'') ''{''" by code_simp
  have 3: "length (split_on CHR '','' (strip ''1,2,3'')) \<noteq> length (attributes two_integers)"
    unfolding two_integers_def by code_simp
  have 4: "str_of_int 7 = ''7''" "str_of_int 3 = ''3''" "str_of_int 2 = ''2''" by code_simp+
  have 5: "length (split_on CHR '','' (strip ''1,2,3'')) = 3" by code_simp
  have 6: "length (attributes two_integers) = 2" "lineno two_integers = 7"
    "stdout two_integers = []" "data two_integers = []"
    by (simp_all add: two_integers_def new_arff_def)
  show ?thesis
    using dense_count_mismatch [of two_integers "''1,2,3''" int_host "[]", OF 1 _ _ 2 3]
    by (simp add: 1 2 3 4 5 6)
qed

subsection \<open>A nominal value outside the declared set\<close>






subsection \<open>The class attribute\<close>

lemma field_value_frame:
  assumes "field_value h a k e pt = Inr (a0, v)"
  shows "class_attr_name a0 = class_attr_name a" "attributes a0 = attributes a"
    "attribute_types a0 = attribute_types a" "attribute_data a0 = attribute_data a"
    "fout a0 = fout a" "data a0 = data a"
  using assms
  by (auto simp: field_value_def Let_def map_sum_def split: entry.splits if_splits option.splits sum.splits)

lemma field_value_Val: "field_value h a k (Val x) pt = Inr (a, x)"
  by (simp add: field_value_def)

lemma undeclared_step_frame:
  assumes "undeclared_step (a, line, sc) k v = (a1, line1, sc1)"
  shows "class_attr_name a1 = class_attr_name a" "fout a1 = fout a"
    "set (attributes a) \<subseteq> set (attributes a1)" "data a1 = data a"
    "attribute_data a1 = attribute_data a"
    "fout a = None \<Longrightarrow> k \<in> dom (attribute_types a1)"
    "dom (attribute_types a) \<subseteq> set (attributes a) \<Longrightarrow> dom (attribute_types a1) \<subseteq> set (attributes a1)"
  using assms by (auto simp: undeclared_step_def split: if_splits) (metis domI subsetD)

lemma nominal_step_frame:
  assumes "nominal_step h (a, line, sc) k v = Inr (a2, line2, sc2)"
  shows "class_attr_name a2 = class_attr_name a" "fout a2 = fout a"
    "attributes a2 = attributes a" "attribute_types a2 = attribute_types a" "data a2 = data a"
  using assms
  by (auto simp: nominal_step_def Let_def split: if_splits option.splits sum.splits bool.splits adata.splits)

lemma class_step_frame:
  assumes "class_step a k v = Inr a3"
  shows "attributes a3 = attributes a" "fout a3 = fout a" "attribute_types a3 = attribute_types a"
    "attribute_data a3 = attribute_data a" "data a3 = data a"
    "class_attr_name a = Some c \<Longrightarrow> class_attr_name a3 = Some c"
    "cls v \<Longrightarrow> class_attr_name a3 = Some k"
  using assms by (auto simp: class_step_def split: if_splits option.splits)

lemma class_step_conflict:
  "class_attr_name a = Some c \<Longrightarrow> cls v \<Longrightarrow> k \<noteq> c \<Longrightarrow> class_step a k v = Inl AssertionError"
  by (simp add: class_step_def)

lemma set_remove1_insert: "c \<in> set xs \<Longrightarrow> insert c (set (remove1 c xs)) = set xs"
  by (induction xs) auto

lemma move_class_last_frame:
  "class_attr_name (move_class_last a) = class_attr_name a"
  "set (attributes (move_class_last a)) = set (attributes a)"
  "fout (move_class_last a) = fout a"
  "attribute_types (move_class_last a) = attribute_types a"
  "attribute_data (move_class_last a) = attribute_data a"
  "data (move_class_last a) = data a"
  by (auto simp: move_class_last_def set_remove1_insert split: option.splits)

lemma move_class_last_last:
  "class_attr_name a = Some c \<Longrightarrow> c \<noteq> [] \<Longrightarrow> c \<in> set (attributes a)
   \<Longrightarrow> last (attributes (move_class_last a)) = c"
  by (simp add: move_class_last_def)

lemma append_field_round:
  assumes "append_field h (a, line, sc) (k, e) = Inr (a', line', sc')"
  shows "class_attr_name a = Some c \<Longrightarrow> class_attr_name a' = Some c"
    and "e = Val v \<Longrightarrow> cls v \<Longrightarrow> class_attr_name a' = Some k"
    and "set (attributes a) \<subseteq> set (attributes a')"
    and "fout a' = fout a"
    and "class_attr_name a' = Some c \<Longrightarrow> c \<noteq> [] \<Longrightarrow> c \<in> set (attributes a')
         \<Longrightarrow> last (attributes a') = c"
    and "fout a = None \<Longrightarrow> dom (attribute_types a) \<subseteq> set (attributes a)
         \<Longrightarrow> k \<in> set (attributes a') \<and> dom (attribute_types a') \<subseteq> set (attributes a')"
proof -
  define pt where "pt = (case attribute_types a k of
                          Some t \<Rightarrow> Some t
                        | None \<Rightarrow> (case e of Val x \<Rightarrow> Some (c_type (kind x)) | Raw _ \<Rightarrow> None))"
  from assms obtain a0 w where fv: "field_value h a k e pt = Inr (a0, w)"
    by (auto simp: append_field_def pt_def Let_def split: sum.splits)
  obtain a1 line1 sc1 where us: "undeclared_step (a0, line, sc) k w = (a1, line1, sc1)"
    by (cases "undeclared_step (a0, line, sc) k w") auto
  from assms fv us obtain a2 line2 sc2 where ns: "nominal_step h (a1, line1, sc1) k w = Inr (a2, line2, sc2)"
    by (auto simp: append_field_def pt_def[symmetric] Let_def split: sum.splits if_splits)
  from assms fv us ns obtain a3 where cs: "class_step a2 k w = Inr a3"
    and a': "a' = move_class_last a3"
    by (auto simp: append_field_def pt_def[symmetric] Let_def split: sum.splits if_splits)
  note f0 = field_value_frame[OF fv] and f1 = undeclared_step_frame[OF us]
    and f2 = nominal_step_frame[OF ns] and f3 = class_step_frame[OF cs]
  show "class_attr_name a = Some c \<Longrightarrow> class_attr_name a' = Some c"
    using f0(1) f1(1) f2(1) f3(6) by (simp add: a' move_class_last_frame)
  show "e = Val v \<Longrightarrow> cls v \<Longrightarrow> class_attr_name a' = Some k"
    using fv f3(7) by (simp add: a' move_class_last_frame field_value_Val)
  show "set (attributes a) \<subseteq> set (attributes a')"
    using f0(2) f1(3) f2(3) f3(1) by (simp add: a' move_class_last_frame)
  show "fout a' = fout a"
    using f0(5) f1(2) f2(2) f3(2) by (simp add: a' move_class_last_frame)
  show "class_attr_name a' = Some c \<Longrightarrow> c \<noteq> [] \<Longrightarrow> c \<in> set (attributes a')
         \<Longrightarrow> last (attributes a') = c"
    unfolding a' using move_class_last_last[of a3 c] by (simp add: move_class_last_frame)
  show "k \<in> set (attributes a') \<and> dom (attribute_types a') \<subseteq> set (attributes a')"
    if "fout a = None" "dom (attribute_types a) \<subseteq> set (attributes a)"
  proof -
    have "k \<in> dom (attribute_types a1)" "dom (attribute_types a1) \<subseteq> set (attributes a1)"
      using f1(6,7) that f0 by simp_all
    then show ?thesis
      using f2(3,4) f3(1,3) by (auto simp: a' move_class_last_frame)
  qed
qed

lemma append_field_conflict:
  assumes "class_attr_name a = Some c" "cls v" "k \<noteq> c"
  shows "\<exists>err. append_field h (a, line, sc) (k, Val v) = Inl err"
proof (cases "append_field h (a, line, sc) (k, Val v)")
  case (Inl err)
  then show ?thesis by blast
next
  case (Inr st)
  obtain a' line' sc' where st: "st = (a', line', sc')" by (cases st) auto
  from append_field_round(1)[OF Inr[unfolded st] assms(1)]
    append_field_round(2)[OF Inr[unfolded st] refl assms(2)] assms(3)
  show ?thesis by simp
qed

lemma append_fields_conflict:
  assumes "class_attr_name a = Some c" "(k, Val v) \<in> set kvs" "cls v" "k \<noteq> c"
  shows "\<exists>err. append_fields h (a, line, sc) kvs = Inl err"
  using assms
proof (induction kvs arbitrary: a line sc)
  case Nil
  then show ?case by simp
next
  case (Cons kv kvs)
  obtain k' e' where kv: "kv = (k', e')" by (cases kv) auto
  show ?case
  proof (cases "append_field h (a, line, sc) kv")
    case (Inl err)
    then show ?thesis by simp
  next
    case (Inr st)
    obtain a' line' sc' where st: "st = (a', line', sc')" by (cases st) auto
    have c': "class_attr_name a' = Some c"
      using append_field_round(1)[OF Inr[unfolded st kv]] Cons.prems(1) by simp
    show ?thesis
    proof (cases "kv = (k, Val v)")
      case True
      with append_field_conflict[OF Cons.prems(1,3,4), of h line sc] Inr show ?thesis by auto
    next
      case False
      with Cons.prems(2) have "(k, Val v) \<in> set kvs" by simp
      from Cons.IH[OF c' this Cons.prems(3,4)] Inr st show ?thesis by simp
    qed
  qed
qed

lemma append_fields_frame:
  assumes "append_fields h (a, line, sc) kvs = Inr (a', line', sc')"
  shows "(class_attr_name a = Some c \<longrightarrow> class_attr_name a' = Some c)
    \<and> set (attributes a) \<subseteq> set (attributes a')
    \<and> fout a' = fout a
    \<and> (fout a = None \<and> dom (attribute_types a) \<subseteq> set (attributes a)
         \<longrightarrow> dom (attribute_types a') \<subseteq> set (attributes a') \<and> fst ` set kvs \<subseteq> set (attributes a'))"
  using assms
proof (induction kvs arbitrary: a line sc)
  case Nil
  then show ?case by simp
next
  case (Cons kv kvs)
  obtain k e where kv: "kv = (k, e)" by (cases kv) auto
  from Cons.prems obtain a1 line1 sc1 where
    r1: "append_field h (a, line, sc) (k, e) = Inr (a1, line1, sc1)"
    and r2: "append_fields h (a1, line1, sc1) kvs = Inr (a', line', sc')"
    by (auto simp: kv split: sum.splits)
  note rd = append_field_round[OF r1] and ih = Cons.IH[OF r2]
  have "class_attr_name a = Some c \<longrightarrow> class_attr_name a' = Some c"
    using rd(1) ih by blast
  moreover have "set (attributes a) \<subseteq> set (attributes a')"
    using rd(3) ih by blast
  moreover have "fout a' = fout a"
    using rd(4) ih by simp
  moreover have "dom (attribute_types a') \<subseteq> set (attributes a') \<and> fst ` set (kv # kvs) \<subseteq> set (attributes a')"
    if "fout a = None" "dom (attribute_types a) \<subseteq> set (attributes a)"
  proof -
    from rd(6)[OF that] have k: "k \<in> set (attributes a1)"
      and d: "dom (attribute_types a1) \<subseteq> set (attributes a1)" by simp_all
    have "fout a1 = None" using rd(4) that(1) by simp
    with ih d have "dom (attribute_types a') \<subseteq> set (attributes a')"
      "fst ` set kvs \<subseteq> set (attributes a')" "set (attributes a1) \<subseteq> set (attributes a')"
      by blast+
    with k show ?thesis by (auto simp: kv)
  qed
  ultimately show ?case by blast
qed

lemma append_fields_last:
  assumes "append_fields h (a, line, sc) kvs = Inr (a', line', sc')" and "kvs \<noteq> []"
    and "class_attr_name a' = Some c" and "c \<noteq> []" and "c \<in> set (attributes a')"
  shows "last (attributes a') = c"
  using assms
proof (induction kvs arbitrary: a line sc)
  case Nil
  then show ?case by simp
next
  case (Cons kv kvs)
  obtain k e where kv: "kv = (k, e)" by (cases kv) auto
  from Cons.prems(1) obtain a1 line1 sc1 where
    r1: "append_field h (a, line, sc) (k, e) = Inr (a1, line1, sc1)"
    and r2: "append_fields h (a1, line1, sc1) kvs = Inr (a', line', sc')"
    by (auto simp: kv split: sum.splits)
  show ?case
  proof (cases "kvs = []")
    case True
    with r2 have "a1 = a'" by simp
    with append_field_round(5)[OF r1] Cons.prems(3-5) show ?thesis by simp
  next
    case False
    from Cons.IH[OF r2 False Cons.prems(3-5)] show ?thesis .
  qed
qed

lemma append_fields_flag:
  assumes "append_fields h (a, line, sc) kvs = Inr (a', line', sc')"
    and "(k, Val v) \<in> set kvs" and "cls v"
  shows "class_attr_name a' = Some k"
  using assms
proof (induction kvs arbitrary: a line sc)
  case Nil
  then show ?case by simp
next
  case (Cons kv kvs)
  obtain k' e where kv: "kv = (k', e)" by (cases kv) auto
  from Cons.prems(1) obtain a1 line1 sc1 where
    r1: "append_field h (a, line, sc) (k', e) = Inr (a1, line1, sc1)"
    and r2: "append_fields h (a1, line1, sc1) kvs = Inr (a', line', sc')"
    by (auto simp: kv split: sum.splits)
  show ?case
  proof (cases "kv = (k, Val v)")
    case True
    with kv append_field_round(2)[OF r1, of v] Cons.prems(3)
    have "class_attr_name a1 = Some k" by simp
    with append_fields_frame[OF r2, of k] show ?thesis by simp
  next
    case False
    with Cons.prems(2) have "(k, Val v) \<in> set kvs" by simp
    from Cons.IH[OF r2 this Cons.prems(3)] show ?thesis .
  qed
qed

lemma store_frame:
  assumes "store h a line = Inr a'"
  shows "class_attr_name a' = class_attr_name a" "attributes a' = attributes a"
    "attribute_types a' = attribute_types a" "attribute_data a' = attribute_data a"
  using assms by (auto simp: store_def emit_def split: if_splits sum.splits option.splits)

text \<open>
  C3, as the claim states it, fails in streaming mode: a flagged field whose attribute is
  not declared is dropped from the row, its name becomes the class attribute, and the
  schema's last attribute is another one.
\<close>

theorem class_attribute_outside_schema_counterexample:
  "fout one_numeric_stream \<noteq> None
   \<and> map_sum id (\<lambda>a'. (class_attr_name a', attributes a'))
       (append int_host one_numeric_stream [(''z'', Val (Value KNumeric (RFloat 1) True))]
          False True)
     = Inr (Some ''z'', [''a''])"
  unfolding one_numeric_stream_def by code_simp

text \<open>
  C3, amended. With \<open>update_schema\<close> on, an append of a dict that finds a class attribute
  set and a field flagged for another name raises an error. When the append returns, a class
  attribute that was set is still the same, a field flagged as class names the class
  attribute, and if that name is not empty and is one of the schema's attributes it is
  the last of them; in memory, when every typed attribute is listed, it is one of them.
\<close>

theorem class_attribute_fixed_and_last:
  "(class_attr_name a = Some c \<and> (k, Val v) \<in> set line \<and> cls v \<and> k \<noteq> c \<longrightarrow>
      (\<exists>err. append h a line so True = Inl err))
   \<and> (append h a line so True = Inr a' \<longrightarrow>
        (class_attr_name a = Some c \<longrightarrow> class_attr_name a' = Some c)
      \<and> ((k, Val v) \<in> set line \<and> cls v \<longrightarrow>
           class_attr_name a' = Some k
         \<and> (k \<noteq> [] \<and> k \<in> set (attributes a') \<longrightarrow> last (attributes a') = k)
         \<and> (k \<noteq> [] \<and> fout a = None \<and> dom (attribute_types a) \<subseteq> set (attributes a) \<longrightarrow>
              k \<in> set (attributes a') \<and> last (attributes a') = k)))"
proof -
  have A: "\<exists>err. append h a line so True = Inl err"
    if "class_attr_name a = Some c \<and> (k, Val v) \<in> set line \<and> cls v \<and> k \<noteq> c"
  proof -
    from that obtain err where "append_fields h (a, line, False) line = Inl err"
      using append_fields_conflict[of a c k v line h line False] by blast
    then show ?thesis by (simp add: append_def update_schema_def)
  qed
  have B: "(class_attr_name a = Some c \<longrightarrow> class_attr_name a' = Some c)
      \<and> ((k, Val v) \<in> set line \<and> cls v \<longrightarrow>
           class_attr_name a' = Some k
         \<and> (k \<noteq> [] \<and> k \<in> set (attributes a') \<longrightarrow> last (attributes a') = k)
         \<and> (k \<noteq> [] \<and> fout a = None \<and> dom (attribute_types a) \<subseteq> set (attributes a) \<longrightarrow>
              k \<in> set (attributes a') \<and> last (attributes a') = k))"
    if ok: "append h a line so True = Inr a'"
  proof -
    from ok obtain a1 line1 sc1 where
      run: "append_fields h (a, line, False) line = Inr (a1, line1, sc1)"
      and fin: "a' = a1 \<or> store h a1 line1 = Inr a'"
      by (auto simp: append_def update_schema_def split: sum.splits if_splits)
    have same: "class_attr_name a' = class_attr_name a1" "attributes a' = attributes a1"
      using fin store_frame(1,2) by metis+
    note fr = append_fields_frame[OF run]
    have 1: "class_attr_name a = Some c \<longrightarrow> class_attr_name a' = Some c"
      using fr[of c] same by simp
    have 2: "class_attr_name a' = Some k
         \<and> (k \<noteq> [] \<and> k \<in> set (attributes a') \<longrightarrow> last (attributes a') = k)
         \<and> (k \<noteq> [] \<and> fout a = None \<and> dom (attribute_types a) \<subseteq> set (attributes a) \<longrightarrow>
              k \<in> set (attributes a') \<and> last (attributes a') = k)"
      if fl: "(k, Val v) \<in> set line" "cls v"
    proof -
      have c': "class_attr_name a' = Some k"
        using append_fields_flag[OF run fl] same by simp
      have ne: "line \<noteq> []" using fl(1) by auto
      have last: "last (attributes a') = k" if "k \<noteq> []" "k \<in> set (attributes a')"
        using append_fields_last[OF run ne, of k] c' same that by simp
      have mem: "k \<in> set (attributes a')"
        if "fout a = None" "dom (attribute_types a) \<subseteq> set (attributes a)"
      proof -
        from fr[of c] that have "fst ` set line \<subseteq> set (attributes a1)" by blast
        with fl(1) have "k \<in> set (attributes a1)" by force
        with same show ?thesis by simp
      qed
      from c' last mem show ?thesis by blast
    qed
    from 1 2 show ?thesis by blast
  qed
  from A B show ?thesis by blast
qed

theorem class_attribute_fixed_and_last_witness:
  "class_attr_name (two_integers\<lparr>class_attr_name := Some ''y''\<rparr>) = Some ''y''
   \<and> map_sum id class_attr_name
        (append int_host (two_integers\<lparr>class_attr_name := Some ''y''\<rparr>)
           [(''x'', Val (Value KInteger (RInt 1) True))] False True) = Inl AssertionError
   \<and> fout two_integers = None
   \<and> dom (attribute_types two_integers) \<subseteq> set (attributes two_integers)
   \<and> map_sum id (\<lambda>a'. (class_attr_name a', attributes a'))
        (append int_host two_integers [(''x'', Val (Value KInteger (RInt 1) True))] False True)
      = Inr (Some ''x'', [''y'', ''x''])
   \<and> last [''y'', ''x''] = ''x''"
proof -
  have 1: "map_sum id class_attr_name
        (append int_host (two_integers\<lparr>class_attr_name := Some ''y''\<rparr>)
           [(''x'', Val (Value KInteger (RInt 1) True))] False True) = Inl AssertionError"
    unfolding two_integers_def by code_simp
  have 2: "map_sum id (\<lambda>a'. (class_attr_name a', attributes a'))
        (append int_host two_integers [(''x'', Val (Value KInteger (RInt 1) True))] False True)
      = Inr (Some ''x'', [''y'', ''x''])"
    unfolding two_integers_def by code_simp
  have 3: "fout two_integers = None"
    "dom (attribute_types two_integers) \<subseteq> set (attributes two_integers)"
    by (auto simp: two_integers_def new_arff_def split: if_splits)
  show ?thesis
    using class_attribute_fixed_and_last
            [of "two_integers\<lparr>class_attr_name := Some ''y''\<rparr>" "''y''" "''x''"
                "Value KInteger (RInt 1) True" "[(''x'', Val (Value KInteger (RInt 1) True))]"
                int_host False undefined]
          class_attribute_fixed_and_last
            [of two_integers "''y''" "''x''"
                "Value KInteger (RInt 1) True" "[(''x'', Val (Value KInteger (RInt 1) True))]"
                int_host False]
    by (simp add: 1 2 3)
qed

subsection \<open>Appending to a stream\<close>

lemma move_class_last_mset: "mset (attributes (move_class_last a)) = mset (attributes a)"
  by (auto simp: move_class_last_def split: option.splits)

lemma move_class_last_None:
  "class_attr_name a = None \<Longrightarrow> move_class_last a = a"
  by (simp add: move_class_last_def)

lemma append_field_streaming:
  assumes "fout a \<noteq> None" and "fits_schema h a c k v"
    and "class_attr_name a = None \<or> class_attr_name a = Some c"
  shows "\<exists>a'. append_field h (a, line, sc) (k, Val v)
               = Inr (a', (if outside_schema h a k (Val v) then AList.delete k line else line), sc)
        \<and> attribute_types a' = attribute_types a \<and> attribute_data a' = attribute_data a
        \<and> fout a' = fout a \<and> mset (attributes a') = mset (attributes a)
        \<and> (class_attr_name a' = None \<or> class_attr_name a' = Some c)
        \<and> (class_attr_name a' = None \<longrightarrow> attributes a' = attributes a)"
proof -
  define line1 where "line1 = (if attribute_types a k = None then AList.delete k line else line)"
  have us: "undeclared_step (a, line, sc) k v = (a, line1, sc)"
    using assms(1) by (simp add: undeclared_step_def line1_def)
  define line2 where "line2 = (if outside_schema h a k (Val v) then AList.delete k line else line)"
  have ns: "nominal_step h (a, line1, sc) k v = Inr (a, line2, sc)"
    using assms(1,2)
    by (auto simp: nominal_step_def fits_schema_def outside_schema_def line1_def line2_def
        delete_idem split: option.splits sum.splits bool.splits)
  define a3 where "a3 = (if cls v \<and> class_attr_name a = None
                         then a\<lparr>class_attr_name := Some c\<rparr> else a)"
  have cs: "class_step a k v = Inr a3"
    using assms(2,3) by (auto simp: class_step_def fits_schema_def a3_def)
  have a3: "a3 = a \<or> (class_attr_name a = None \<and> a3 = a\<lparr>class_attr_name := Some c\<rparr>)"
    by (simp add: a3_def)
  have run: "append_field h (a, line, sc) (k, Val v) = Inr (move_class_last a3, line2, sc)"
    using assms(2) us ns cs
    by (auto simp: append_field_def field_value_def fits_schema_def split: option.splits)
  let ?a' = "move_class_last a3"
  have c3: "class_attr_name a3 = None \<or> class_attr_name a3 = Some c"
    using a3 assms(3) by auto
  have n3: "class_attr_name a3 = None \<longrightarrow> a3 = a" using a3 by auto
  have f3: "attributes a3 = attributes a" "attribute_types a3 = attribute_types a"
    "attribute_data a3 = attribute_data a" "fout a3 = fout a"
    using a3 by auto
  have 1: "append_field h (a, line, sc) (k, Val v)
             = Inr (?a', (if outside_schema h a k (Val v) then AList.delete k line else line), sc)"
    using run by (simp add: line2_def)
  have 2: "attribute_types ?a' = attribute_types a" "attribute_data ?a' = attribute_data a"
    "fout ?a' = fout a"
    by (simp_all add: move_class_last_frame f3)
  have 3: "mset (attributes ?a') = mset (attributes a)"
    by (simp add: move_class_last_mset f3)
  have 4: "class_attr_name ?a' = None \<or> class_attr_name ?a' = Some c"
    using c3 by (simp add: move_class_last_frame)
  have 5: "class_attr_name ?a' = None \<longrightarrow> attributes ?a' = attributes a"
    using n3 by (auto simp: move_class_last_frame move_class_last_None)
  let ?Q = "\<lambda>a'. append_field h (a, line, sc) (k, Val v)
               = Inr (a', (if outside_schema h a k (Val v) then AList.delete k line else line), sc)
        \<and> attribute_types a' = attribute_types a \<and> attribute_data a' = attribute_data a
        \<and> fout a' = fout a \<and> mset (attributes a') = mset (attributes a)
        \<and> (class_attr_name a' = None \<or> class_attr_name a' = Some c)
        \<and> (class_attr_name a' = None \<longrightarrow> attributes a' = attributes a)"
  have "?Q ?a'" using 4 5 by (simp add: 1 2 3)
  then show ?thesis by (rule exI)
qed

lemma outside_schema_frame:
  assumes "attribute_types a' = attribute_types a" and "attribute_data a' = attribute_data a"
    and "mset (attributes a') = mset (attributes a)"
  shows "outside_schema h a' = outside_schema h a"
proof -
  have "set (attributes a') = set (attributes a)" using assms(3) by (rule mset_eq_setD)
  then show ?thesis
    using assms(1,2)
    by (auto simp: outside_schema_def fun_eq_iff split: entry.splits option.splits)
qed

lemma fits_schema_frame:
  assumes "attribute_types a' = attribute_types a" and "attribute_data a' = attribute_data a"
    and "mset (attributes a') = mset (attributes a)"
  shows "fits_schema h a' = fits_schema h a"
proof -
  have "set (attributes a') = set (attributes a)" using assms(3) by (rule mset_eq_setD)
  then show ?thesis
    using assms(1,2)
    by (auto simp: fits_schema_def fun_eq_iff split: entry.splits option.splits)
qed

lemma append_field_streaming':
  assumes "fout a \<noteq> None" and "fits_schema h a c k v"
    and "class_attr_name a = None \<or> class_attr_name a = Some c"
  shows "\<exists>a'. append_field h (a, line, sc) (k, Val v) = Inr (a', trim_step h a (k, Val v) line, sc)
        \<and> stream_frame a a' \<and> (class_attr_name a' = None \<or> class_attr_name a' = Some c)"
proof -
  from append_field_streaming[OF assms, of line sc]
  obtain a' where "append_field h (a, line, sc) (k, Val v)
               = Inr (a', (if outside_schema h a k (Val v) then AList.delete k line else line), sc)
        \<and> attribute_types a' = attribute_types a \<and> attribute_data a' = attribute_data a
        \<and> fout a' = fout a \<and> mset (attributes a') = mset (attributes a)
        \<and> (class_attr_name a' = None \<or> class_attr_name a' = Some c)
        \<and> (class_attr_name a' = None \<longrightarrow> attributes a' = attributes a)" ..
  then have "append_field h (a, line, sc) (k, Val v) = Inr (a', trim_step h a (k, Val v) line, sc)
        \<and> stream_frame a a' \<and> (class_attr_name a' = None \<or> class_attr_name a' = Some c)"
    by (simp add: stream_frame_def trim_step_def)
  then show ?thesis by (rule exI)
qed

lemma append_fields_streaming:
  assumes "fout a \<noteq> None"
    and "class_attr_name a = None \<or> class_attr_name a = Some c"
    and "\<forall>(k, e) \<in> set kvs. case e of Raw _ \<Rightarrow> False | Val v \<Rightarrow> fits_schema h a c k v"
  shows "\<exists>a'. append_fields h (a, line, sc) kvs = Inr (a', fold (trim_step h a) kvs line, sc)
        \<and> stream_frame a a'"
  using assms
proof (induction kvs arbitrary: a line)
  case Nil
  then show ?case by (simp add: stream_frame_def)
next
  case (Cons kv kvs)
  obtain k e where kv: "kv = (k, e)" by (cases kv) auto
  from Cons.prems(3) obtain v where e: "e = Val v" and fit: "fits_schema h a c k v"
    by (cases e) (auto simp: kv)
  from append_field_streaming'[OF Cons.prems(1) fit Cons.prems(2), of line sc]
  obtain a1 where a1: "append_field h (a, line, sc) (k, Val v) = Inr (a1, trim_step h a (k, Val v) line, sc)
        \<and> stream_frame a a1 \<and> (class_attr_name a1 = None \<or> class_attr_name a1 = Some c)" ..
  then have r1: "append_field h (a, line, sc) kv = Inr (a1, trim_step h a kv line, sc)"
    and fr: "stream_frame a a1"
    and c1: "class_attr_name a1 = None \<or> class_attr_name a1 = Some c"
    by (simp_all add: kv e)
  have fr': "attribute_types a1 = attribute_types a" "attribute_data a1 = attribute_data a"
      "fout a1 = fout a" "mset (attributes a1) = mset (attributes a)"
    using fr by (simp_all add: stream_frame_def)
  have same: "outside_schema h a1 = outside_schema h a" "fits_schema h a1 = fits_schema h a"
    using outside_schema_frame[OF fr'(1,2,4)] fits_schema_frame[OF fr'(1,2,4)] by blast+
  have ts: "trim_step h a1 = trim_step h a"
    by (simp add: trim_step_def fun_eq_iff same)
  have f1: "fout a1 \<noteq> None" using fr'(3) Cons.prems(1) by simp
  have fits1: "\<forall>(k, e) \<in> set kvs. case e of Raw _ \<Rightarrow> False | Val v \<Rightarrow> fits_schema h a1 c k v"
    using Cons.prems(3) by (auto simp: same split: entry.splits)
  from Cons.IH[OF f1 c1 fits1, of "trim_step h a kv line"]
  obtain a' where a': "append_fields h (a1, trim_step h a kv line, sc) kvs
           = Inr (a', fold (trim_step h a1) kvs (trim_step h a kv line), sc)
        \<and> stream_frame a1 a'" ..
  then have r2: "append_fields h (a1, trim_step h a kv line, sc) kvs
           = Inr (a', fold (trim_step h a1) kvs (trim_step h a kv line), sc)"
    and fr2: "stream_frame a1 a'" by simp_all
  have cn: "class_attr_name a' = None \<longrightarrow> class_attr_name a1 = None"
    using append_fields_frame[OF r2, of c] c1 by auto
  have "stream_frame a a'"
    using fr fr2 cn by (simp add: stream_frame_def)
  moreover have "append_fields h (a, line, sc) (kv # kvs)
      = Inr (a', fold (trim_step h a) (kv # kvs) line, sc)"
    using r1 r2 by (simp add: ts)
  ultimately have "append_fields h (a, line, sc) (kv # kvs)
      = Inr (a', fold (trim_step h a) (kv # kvs) line, sc) \<and> stream_frame a a'"
    by simp
  then show ?case by (rule exI)
qed

lemma fold_trim_filter:
  "fold (trim_step h a) kvs l
   = filter (\<lambda>(k, e). \<not> (\<exists>e'. (k, e') \<in> set kvs \<and> outside_schema h a k e')) l"
proof (induction kvs arbitrary: l)
  case Nil
  show ?case by simp
next
  case (Cons kv kvs)
  obtain k0 e0 where kv: "kv = (k0, e0)" by (cases kv) auto
  let ?P = "\<lambda>(k, e). \<not> (\<exists>e'. (k, e') \<in> set kvs \<and> outside_schema h a k e')"
  have 1: "fold (trim_step h a) (kv # kvs) l = filter ?P (trim_step h a kv l)"
    by (simp add: Cons.IH)
  show ?case
  proof (cases "outside_schema h a k0 e0")
    case True
    then have "trim_step h a kv l = filter (\<lambda>(k', _). k0 \<noteq> k') l"
      by (simp add: trim_step_def kv AList.delete_eq)
    then have "fold (trim_step h a) (kv # kvs) l
        = filter (\<lambda>x. (case x of (k', _) \<Rightarrow> k0 \<noteq> k') \<and> ?P x) l"
      unfolding 1 by simp
    also have "(\<lambda>x. (case x of (k', _) \<Rightarrow> k0 \<noteq> k') \<and> ?P x)
        = (\<lambda>(k, e). \<not> (\<exists>e'. (k, e') \<in> set (kv # kvs) \<and> outside_schema h a k e'))"
      using True by (auto simp: fun_eq_iff kv)
    finally show ?thesis .
  next
    case False
    then have "trim_step h a kv l = l"
      by (simp add: trim_step_def kv)
    then have "fold (trim_step h a) (kv # kvs) l = filter ?P l"
      unfolding 1 by simp
    also have "?P = (\<lambda>(k, e). \<not> (\<exists>e'. (k, e') \<in> set (kv # kvs) \<and> outside_schema h a k e'))"
      using False by (auto simp: fun_eq_iff kv)
    finally show ?thesis .
  qed
qed

lemma trim_distinct:
  assumes "distinct (map fst line)"
  shows "fold (trim_step h a) line line = filter (\<lambda>(k, e). \<not> outside_schema h a k e) line"
  unfolding fold_trim_filter
proof (rule filter_cong[OF refl], clarify)
  fix k e assume ke: "(k, e) \<in> set line"
  have "e' = e" if "(k, e') \<in> set line" for e'
    using eq_key_imp_eq_value[OF assms that ke] .
  with ke show "(\<not> (\<exists>e'. (k, e') \<in> set line \<and> outside_schema h a k e')) = (\<not> outside_schema h a k e)"
    by blast
qed

text \<open>
  What a streaming append keeps. For a dict of Values whose fields pass the checks of the
  loop (\<open>fits_schema\<close>), the loop does not fail: every field whose name is not declared
  and every Nominal field whose value is not among the declared values is deleted from
  the row, the row that is left is what the sparse writer gets, and the schema keeps its
  types, its extra data and its attributes; the order of the attributes is kept as long
  as no class attribute is set.
\<close>

lemma streaming_append_trims:
  assumes "fout a \<noteq> None" and "distinct (map fst line)"
    and "class_attr_name a = None \<or> class_attr_name a = Some c"
    and "\<forall>(k, e) \<in> set line. case e of Raw _ \<Rightarrow> False | Val v \<Rightarrow> fits_schema h a c k v"
  shows "\<exists>a'. update_schema h a line
               = Inr (a', filter (\<lambda>(k, e). \<not> outside_schema h a k e) line)
        \<and> append h a line False True
            = (case write_line h a' (Sparse (filter (\<lambda>(k, e). \<not> outside_schema h a k e) line)) of
                 Inl err \<Rightarrow> Inl err | Inr t \<Rightarrow> Inr (emit a' t))
        \<and> attribute_types a' = attribute_types a \<and> attribute_data a' = attribute_data a
        \<and> mset (attributes a') = mset (attributes a)
        \<and> (class_attr_name a' = None \<longrightarrow> attributes a' = attributes a)"
proof -
  from append_fields_streaming[OF assms(1,3,4), of line False]
  obtain a' where a': "append_fields h (a, line, False) line
        = Inr (a', fold (trim_step h a) line line, False) \<and> stream_frame a a'" ..
  then have run: "append_fields h (a, line, False) line
        = Inr (a', fold (trim_step h a) line line, False)"
    and fr: "attribute_types a' = attribute_types a" "attribute_data a' = attribute_data a"
      "fout a' = fout a" "mset (attributes a') = mset (attributes a)"
      "class_attr_name a' = None \<longrightarrow> attributes a' = attributes a"
    by (simp_all add: stream_frame_def)
  have us: "update_schema h a line = Inr (a', filter (\<lambda>(k, e). \<not> outside_schema h a k e) line)"
    using run by (simp add: update_schema_def trim_distinct[OF assms(2)])
  have "fout a' \<noteq> None" using fr(3) assms(1) by simp
  then have "append h a line False True
            = (case write_line h a' (Sparse (filter (\<lambda>(k, e). \<not> outside_schema h a k e) line)) of
                 Inl err \<Rightarrow> Inl err | Inr t \<Rightarrow> Inr (emit a' t))"
    using us by (simp add: append_def store_def)
  with us fr have "update_schema h a line
               = Inr (a', filter (\<lambda>(k, e). \<not> outside_schema h a k e) line)
        \<and> append h a line False True
            = (case write_line h a' (Sparse (filter (\<lambda>(k, e). \<not> outside_schema h a k e) line)) of
                 Inl err \<Rightarrow> Inl err | Inr t \<Rightarrow> Inr (emit a' t))
        \<and> attribute_types a' = attribute_types a \<and> attribute_data a' = attribute_data a
        \<and> mset (attributes a') = mset (attributes a)
        \<and> (class_attr_name a' = None \<longrightarrow> attributes a' = attributes a)"
    by simp
  then show ?thesis by (rule exI)
qed

lemma streaming_append_trims_example:
  "fout numeric_and_nominal_stream \<noteq> None \<and> distinct (map fst trimmed_row)
   \<and> class_attr_name numeric_and_nominal_stream = None
   \<and> list_all (\<lambda>(k, e). case e of Raw _ \<Rightarrow> False
                          | Val v \<Rightarrow> fits_schema int_host numeric_and_nominal_stream [] k v)
        trimmed_row
   \<and> filter (\<lambda>(k, e). \<not> outside_schema int_host numeric_and_nominal_stream k e) trimmed_row
       = [(''a'', Val (Value KNumeric (RFloat 2) False))]
   \<and> map_sum id (\<lambda>a'. (attributes a', fout a'))
        (append int_host numeric_and_nominal_stream trimmed_row False True)
      = Inr ([''a'', ''b''], Some [''{0 2.0}''])"
proof -
  have 1: "fout numeric_and_nominal_stream \<noteq> None"
    "class_attr_name numeric_and_nominal_stream = None \<or> class_attr_name numeric_and_nominal_stream = Some []"
    by (simp_all add: numeric_and_nominal_stream_def new_arff_def)
  have 2: "distinct (map fst trimmed_row)" by (simp add: trimmed_row_def)
  have 3: "\<forall>(k, e) \<in> set trimmed_row.
         case e of Raw _ \<Rightarrow> False
         | Val v \<Rightarrow> fits_schema int_host numeric_and_nominal_stream [] k v"
    unfolding trimmed_row_def numeric_and_nominal_stream_def by code_simp
  have 4: "filter (\<lambda>(k, e). \<not> outside_schema int_host numeric_and_nominal_stream k e) trimmed_row
       = [(''a'', Val (Value KNumeric (RFloat 2) False))]"
    unfolding trimmed_row_def numeric_and_nominal_stream_def by code_simp
  have 5: "map_sum id (\<lambda>a'. (attributes a', fout a'))
        (append int_host numeric_and_nominal_stream trimmed_row False True)
      = Inr ([''a'', ''b''], Some [''{0 2.0}''])"
    unfolding trimmed_row_def numeric_and_nominal_stream_def by code_simp
  have 6: "class_attr_name numeric_and_nominal_stream = None"
    by (simp add: numeric_and_nominal_stream_def new_arff_def)
  have 7: "list_all (\<lambda>(k, e). case e of Raw _ \<Rightarrow> False
                          | Val v \<Rightarrow> fits_schema int_host numeric_and_nominal_stream [] k v)
        trimmed_row"
    using 3 by (simp add: list_all_iff)
  show ?thesis
    using streaming_append_trims [OF 1(1) 2 1(2) 3]
    by (simp add: 1 2 4 5 6 7)
qed

text \<open>
  C2. The claim: a streaming append trims the row and leaves the schema, the attribute
  list included, as it is. The code: the end of every round moves the class attribute to
  the end of the attribute list without a test of the sink, although the other changes of
  the schema are tested (\<open>if self.fout\<close>) and a change of the schema while streaming
  fails an assertion. A streaming append that flags the first of two attributes as class
  turns the list \<open>[a, b]\<close> into \<open>[b, a]\<close> and writes the row with index 1, under a header
  that was printed with \<open>a\<close> at index 0.
\<close>

theorem streaming_append_reorders_attributes:
  "fout two_numeric_stream \<noteq> None \<and> attributes two_numeric_stream = [''a'', ''b'']
   \<and> map_sum id (\<lambda>a'. (attributes a', fout a'))
       (append int_host two_numeric_stream [(''a'', Val (Value KNumeric (RFloat 1) True))]
          False True)
     = Inr ([''b'', ''a''], Some [''{1 1.0}''])"
  unfolding two_numeric_stream_def by code_simp

end
